theory Spec2Isabelle
  imports Complex_Main "HOL-Library.Char_ord" "HOL-Library.List_Lexorder"
begin

section \<open>JavaScript values used by the normalisation helpers\<close>

text \<open>
  A JavaScript number is modelled by the rational it denotes, with the three non-finite
  values kept as constructors of their own. Rounding to the nearest double is not
  modelled (a finite number stands for the exact decimal value that was written), the
  overflow of a decimal literal to \<open>Infinity\<close> is, and the sign of zero is dropped.
  Strings are lists of 8-bit characters: the model covers strings whose code units are
  below 256.
\<close>

datatype jsnum = Fin rat | PosInf | NegInf | NaN

datatype jsval = JNum jsnum | JStr string | JNull | JUndefined

fun isFinite :: "jsnum \<Rightarrow> bool" where
  "isFinite (Fin _) = True"
| "isFinite _ = False"

text \<open>\<open>Math.max(a, Math.min(b, n))\<close> on finite numbers.\<close>

definition clamp :: "rat \<Rightarrow> rat \<Rightarrow> rat \<Rightarrow> rat" where
  "clamp n a b = max a (min b n)"

subsection \<open>String primitives\<close>

definition is_digit :: "char \<Rightarrow> bool" where
  "is_digit c = (c \<in> set ''0123456789'')"

definition digit_val :: "char \<Rightarrow> nat" where
  "digit_val c = of_char c - 48"

text \<open>The characters that the class \<open>[^\d.,\-+]\<close> does not match.\<close>

definition amount_char :: "char \<Rightarrow> bool" where
  "amount_char c = (c \<in> set ''0123456789.,-+'')"

definition is_sep :: "char \<Rightarrow> bool" where
  "is_sep c = (c = CHR ''.'' \<or> c = CHR '','')"

text \<open>White space and line terminators of ECMAScript among the code units below 256.\<close>

definition is_space :: "char \<Rightarrow> bool" where
  "is_space c = ((of_char c :: nat) \<in> set [9, 10, 11, 12, 13, 32, 160])"

definition js_trim :: "string \<Rightarrow> string" where
  "js_trim s = rev (dropWhile is_space (rev (dropWhile is_space s)))"

text \<open>\<open>t.lastIndexOf(c)\<close>: the index of the last occurrence, \<open>-1\<close> when there is none.\<close>

fun js_lastIndexOf :: "string \<Rightarrow> char \<Rightarrow> int" where
  "js_lastIndexOf [] c = - 1"
| "js_lastIndexOf (x # xs) c =
     (let r = js_lastIndexOf xs c
      in if 0 \<le> r then r + 1 else if x = c then 0 else - 1)"

text \<open>\<open>t.split(c)\<close> with a one-character separator: never the empty array.\<close>

fun js_split :: "string \<Rightarrow> char \<Rightarrow> string list" where
  "js_split [] c = [[]]"
| "js_split (x # xs) c =
     (if x = c then [] # js_split xs c
      else (case js_split xs c of
              [] \<Rightarrow> [[x]]
            | p # ps \<Rightarrow> (x # p) # ps))"

subsection \<open>String to number\<close>

definition digits_val :: "string \<Rightarrow> nat" where
  "digits_val ds = foldl (\<lambda>a c. 10 * a + digit_val c) 0 ds"

text \<open>
  A decimal value becomes \<open>Infinity\<close> when it rounds beyond the largest double, that is
  from \<open>2^1024 - 2^970\<close> on.
\<close>

definition to_double :: "rat \<Rightarrow> jsnum" where
  "to_double v =
     (if 2 ^ 1024 - 2 ^ 970 \<le> v then PosInf
      else if v \<le> - (2 ^ 1024 - 2 ^ 970) then NegInf
      else Fin v)"

text \<open>
  An unsigned decimal literal without exponent: \<open>digits\<close>, \<open>digits.\<close>, \<open>digits.digits\<close>
  or \<open>.digits\<close>. The result is the value, or \<open>None\<close> when the string is no such literal.
\<close>

definition unsigned_literal :: "string \<Rightarrow> rat option" where
  "unsigned_literal u =
     (let ip = takeWhile is_digit u; rest = dropWhile is_digit u
      in case rest of
           [] \<Rightarrow> (if ip = [] then None else Some (of_nat (digits_val ip)))
         | c # fr \<Rightarrow>
             (if c = CHR ''.'' \<and> list_all is_digit fr \<and> (ip \<noteq> [] \<or> fr \<noteq> [])
              then Some (of_nat (digits_val ip) + of_nat (digits_val fr) / 10 ^ length fr)
              else None))"

text \<open>
  \<open>Number(t)\<close> for a string \<open>t\<close> over the characters \<open>0-9 . + -\<close>, the only strings on
  which \<open>parseAmount\<close> calls it (lemma \<open>parseAmount_text_chars\<close> below): the empty
  string is 0, an optionally signed decimal literal is its value, anything else is
  \<open>NaN\<close>. White space, exponents, radix prefixes and the word \<open>Infinity\<close> cannot occur
  in such a string and are not modelled.
\<close>

definition js_Number :: "string \<Rightarrow> jsnum" where
  "js_Number t =
     (case t of
        [] \<Rightarrow> Fin 0
      | c # r \<Rightarrow>
          (if c = CHR ''-'' then
             (case unsigned_literal r of None \<Rightarrow> NaN | Some v \<Rightarrow> to_double (- v))
           else if c = CHR ''+'' then
             (case unsigned_literal r of None \<Rightarrow> NaN | Some v \<Rightarrow> to_double v)
           else
             (case unsigned_literal t of None \<Rightarrow> NaN | Some v \<Rightarrow> to_double v)))"

subsection \<open>parseAmount\<close>

text \<open>
  The text handed to \<open>Number\<close>: the cleaned string with its decimal separator turned
  into a dot and the grouping separators removed. \<open>decimal_text\<close> is the source's
  computation on the cleaned string, with \<open>lastIndexOf\<close>, \<open>split\<close>, \<open>pop\<close>,
  \<open>join\<close> and \<open>replace\<close>; \<open>parseAmount_text\<close> puts \<open>trim\<close> and the cleaning
  \<open>replace\<close> before it.
\<close>

definition decimal_text :: "string \<Rightarrow> string" where
  "decimal_text t =
     (let lastDot = js_lastIndexOf t (CHR ''.'');
          lastComma = js_lastIndexOf t (CHR '','');
          decSep = (if lastDot > lastComma then Some (CHR ''.'')
                    else if lastComma > lastDot then Some (CHR '','')
                    else None)
      in case decSep of
           Some d \<Rightarrow>
             (let parts = js_split t d;
                  frac = last parts;
                  intPart = filter (\<lambda>c. \<not> is_sep c) (concat (butlast parts))
              in intPart @ ''.'' @ frac)
         | None \<Rightarrow> filter (\<lambda>c. \<not> is_sep c) t)"

definition parseAmount_text :: "string \<Rightarrow> string" where
  "parseAmount_text s = decimal_text (filter amount_char (js_trim s))"

fun parseAmount :: "jsval \<Rightarrow> jsnum" where
  "parseAmount (JNum n) = n"
| "parseAmount JNull = Fin 0"
| "parseAmount JUndefined = Fin 0"
| "parseAmount (JStr s) =
     (if s = [] then Fin 0
      else (let n = js_Number (parseAmount_text s)
            in if isFinite n then n else Fin 0))"


subsection \<open>Arithmetic that can leave the finite numbers\<close>

text \<open>
  Division is the one operation of the engine that can produce \<open>NaN\<close> or an infinity from
  finite operands, so its result is a \<open>jsnum\<close>; HOL's own \<open>x / 0 = 0\<close> is never used for
  a division of the source.
\<close>

definition js_div :: "rat \<Rightarrow> rat \<Rightarrow> jsnum" where
  "js_div a b =
     (if b = 0 then (if a = 0 then NaN else if 0 < a then PosInf else NegInf)
      else Fin (a / b))"

text \<open>\<open>x * k\<close> for a finite positive constant \<open>k\<close> (here 100).\<close>

fun js_times :: "jsnum \<Rightarrow> rat \<Rightarrow> jsnum" where
  "js_times (Fin a) k = Fin (a * k)"
| "js_times x k = x"

text \<open>\<open>x >= k\<close> and \<open>x < k\<close>: both are false on \<open>NaN\<close>.\<close>

fun js_ge :: "jsnum \<Rightarrow> rat \<Rightarrow> bool" where
  "js_ge (Fin a) k = (k \<le> a)"
| "js_ge PosInf k = True"
| "js_ge NegInf k = False"
| "js_ge NaN k = False"

fun js_lt :: "jsnum \<Rightarrow> rat \<Rightarrow> bool" where
  "js_lt (Fin a) k = (a < k)"
| "js_lt PosInf k = False"
| "js_lt NegInf k = True"
| "js_lt NaN k = False"

text \<open>\<open>Math.round\<close>: the nearest integer, halves upwards.\<close>

fun js_round :: "jsnum \<Rightarrow> jsnum" where
  "js_round (Fin a) = Fin (of_int \<lfloor>a + 1 / 2\<rfloor>)"
| "js_round x = x"

text \<open>\<open>x || 0\<close> on a numeric field that may be absent.\<close>

fun or0 :: "rat option \<Rightarrow> rat" where
  "or0 None = 0"
| "or0 (Some v) = v"

text \<open>Truthiness of a string field that may be absent: \<open>null\<close> and \<open>""\<close> are falsy.\<close>

fun truthy :: "string option \<Rightarrow> bool" where
  "truthy None = False"
| "truthy (Some s) = (s \<noteq> [])"

text \<open>\<open>x || ""\<close> on a string field that may be absent.\<close>

fun or_empty :: "string option \<Rightarrow> string" where
  "or_empty None = []"
| "or_empty (Some s) = s"

section \<open>The record store\<close>

text \<open>
  The records of the object stores, with the fields of the data model (the bookkeeping
  fields \<open>createdAt\<close> and \<open>updatedAt\<close> are left out). A field that the code reads through
  \<open>||\<close>, \<open>??\<close> or a truthiness test is an \<open>option\<close>: \<open>None\<close> is the absent or \<open>null\<close>
  field. Stored amounts are finite numbers, as the data model has them.
\<close>

record account =
  a_id :: string
  a_name :: string
  a_type :: string
  a_currency :: string
  startingBalance :: "rat option"
  a_note :: string

record tx =
  t_id :: string
  t_type :: string
  t_date :: "string option"
  accountId :: string
  categoryId :: "string option"
  description :: string
  t_amount :: "rat option"
  t_currency :: string
  hash :: string
  transferGroupId :: "string option"

record category =
  c_id :: string
  c_name :: string

record instrument =
  i_id :: string
  symbol :: string
  i_name :: string
  i_type :: string
  i_currency :: string

record position =
  p_id :: string
  instrumentId :: string
  qty :: "rat option"
  avgCost :: "rat option"
  currentValue :: "rat option"
  p_note :: string

record debt =
  d_id :: string
  direction :: string
  d_status :: string
  person :: string
  d_amount :: "rat option"
  d_currency :: string
  dueDate :: "string option"
  confidence :: "rat option"
  d_note :: string

record trade =
  tr_id :: string
  tr_date :: "string option"
  tr_symbol :: string
  side :: string
  tr_result :: string
  entry :: rat
  exit :: rat
  sl :: rat
  tp :: rat
  tr_size :: rat
  rMultiple :: "rat option"
  tag :: string
  tr_note :: string

record goal =
  g_id :: string
  g_name :: string
  g_type :: string
  targetValue :: "rat option"
  g_currency :: string
  startDate :: string
  endDate :: "string option"
  g_description :: string
  g_status :: string

record snapshot =
  s_id :: string
  s_date :: string
  s_netWorth :: rat
  cashTotal :: rat
  investmentsValue :: rat

datatype meta_value = MStr string | MBool bool

record meta =
  m_key :: string
  m_value :: meta_value

text \<open>
  An object store holds its records in ascending key order, one record per key, and
  \<open>getAll\<close> returns them in that order. Keys are strings, ordered by code units.
\<close>

record db =
  accounts :: "account list"
  transactions :: "tx list"
  categories :: "category list"
  instruments :: "instrument list"
  positions :: "position list"
  debts :: "debt list"
  trades :: "trade list"
  goals :: "goal list"
  snapshots :: "snapshot list"
  meta_store :: "meta list"

text \<open>\<open>put\<close>: insert at the key's place, replacing the record that has the key.\<close>

fun idbPut :: "('a \<Rightarrow> string) \<Rightarrow> 'a \<Rightarrow> 'a list \<Rightarrow> 'a list" where
  "idbPut key v [] = [v]"
| "idbPut key v (x # xs) =
     (if key v < key x then v # x # xs
      else if key v = key x then v # xs
      else x # idbPut key v xs)"

definition idbDelete :: "('a \<Rightarrow> string) \<Rightarrow> string \<Rightarrow> 'a list \<Rightarrow> 'a list" where
  "idbDelete key k xs = filter (\<lambda>x. key x \<noteq> k) xs"

definition idbClear :: "'a list \<Rightarrow> 'a list" where
  "idbClear xs = []"

definition idbGet :: "('a \<Rightarrow> string) \<Rightarrow> string \<Rightarrow> 'a list \<Rightarrow> 'a option" where
  "idbGet key k xs = find (\<lambda>x. key x = k) xs"

text \<open>What every object store satisfies: strictly ascending keys.\<close>

definition store_ok :: "('a \<Rightarrow> string) \<Rightarrow> 'a list \<Rightarrow> bool" where
  "store_ok key xs = sorted_wrt (<) (map key xs)"

definition db_ok :: "db \<Rightarrow> bool" where
  "db_ok d =
     (store_ok a_id (accounts d) \<and> store_ok t_id (transactions d) \<and>
      store_ok c_id (categories d) \<and> store_ok i_id (instruments d) \<and>
      store_ok p_id (positions d) \<and> store_ok d_id (debts d) \<and>
      store_ok tr_id (trades d) \<and> store_ok g_id (goals d) \<and>
      store_ok s_id (snapshots d) \<and> store_ok m_key (meta_store d))"

section \<open>Application state and clock\<close>

text \<open>
  The global \<open>state\<close> object. \<open>currency\<close> holds whatever the meta table holds under
  \<open>baseCurrency\<close>, hence its type.
\<close>

record app_state =
  tab :: string
  currency :: meta_value
  horizonDays :: int
  includeConfidenceMin :: rat

text \<open>
  What one reading of \<open>new Date()\<close> gives: the time value in milliseconds, the local
  year and month (\<open>getMonth\<close>, from 0) and the ISO timestamp. The time zone that relates
  them is not modelled.
\<close>

record clock =
  now_ms :: int
  fullYear :: nat
  month0 :: nat
  isoString :: string

text \<open>
  \<open>new Date(s).getTime()\<close> is a parameter \<open>date_time\<close> of the functions that parse a
  stored date, \<open>None\<close> standing for the \<open>NaN\<close> of an invalid date: ECMAScript fixes the
  result only for its ISO format. \<open>iso_date_time\<close> is the instance used on concrete
  inputs; it reads the date-only form \<open>YYYY-MM-DD\<close> as midnight UTC and takes every other
  string as invalid.
\<close>

definition is_leap :: "nat \<Rightarrow> bool" where
  "is_leap y = (y mod 4 = 0 \<and> (y mod 100 \<noteq> 0 \<or> y mod 400 = 0))"

definition days_in_month :: "nat \<Rightarrow> nat \<Rightarrow> nat" where
  "days_in_month y m =
     (if m = 2 then (if is_leap y then 29 else 28)
      else if m \<in> set [4, 6, 9, 11] then 30 else 31)"

text \<open>Days from 1970-01-01 to the first of January of year \<open>y\<close>.\<close>

definition days_before_year :: "nat \<Rightarrow> int" where
  "days_before_year y =
     365 * (int y - 1970) + (int y - 1969) div 4 - (int y - 1901) div 100
       + (int y - 1601) div 400"

definition days_before_month :: "nat \<Rightarrow> nat \<Rightarrow> nat" where
  "days_before_month y m = sum_list (map (days_in_month y) [1..<m])"

definition iso_date_time :: "string \<Rightarrow> int option" where
  "iso_date_time s =
     (if length s = 10 \<and> s ! 4 = CHR ''-'' \<and> s ! 7 = CHR ''-'' \<and>
         list_all is_digit (take 4 s) \<and> list_all is_digit (take 2 (drop 5 s)) \<and>
         list_all is_digit (drop 8 s)
      then (let y = digits_val (take 4 s);
                m = digits_val (take 2 (drop 5 s));
                d = digits_val (drop 8 s)
            in if 1 \<le> m \<and> m \<le> 12 \<and> 1 \<le> d \<and> d \<le> days_in_month y m
               then Some ((days_before_year y + int (days_before_month y m) + int d - 1)
                          * 86400000)
               else None)
      else None)"

subsection \<open>The current calendar month as ISO strings\<close>

definition digit_char :: "nat \<Rightarrow> char" where
  "digit_char n = ''0123456789'' ! n"

fun dec_string :: "nat \<Rightarrow> string" where
  "dec_string n =
     (if n < 10 then [digit_char n]
      else dec_string (n div 10) @ [digit_char (n mod 10)])"

text \<open>\<open>String(n).padStart(2, "0")\<close>.\<close>

definition pad2 :: "nat \<Rightarrow> string" where
  "pad2 n = (let s = dec_string n in replicate (2 - length s) (CHR ''0'') @ s)"

definition startOfMonthISO :: "clock \<Rightarrow> string" where
  "startOfMonthISO c = dec_string (fullYear c) @ ''-'' @ pad2 (month0 c + 1) @ ''-01''"

text \<open>
  \<open>new Date(y, m + 1, 0)\<close> is the last day of month \<open>m\<close>; the constructor reads a year
  from 0 to 99 as \<open>1900 + y\<close>.
\<close>

definition endOfMonthISO :: "clock \<Rightarrow> string" where
  "endOfMonthISO c =
     (let y = (if fullYear c \<le> 99 then 1900 + fullYear c else fullYear c);
          m = month0 c + 1
      in dec_string y @ ''-'' @ pad2 m @ ''-'' @ pad2 (days_in_month y m))"


section \<open>Balance and projection engine\<close>

record balances =
  b_accounts :: "account list"
  b_txs :: "tx list"
  b_debts :: "debt list"
  b_positions :: "position list"
  actualCash :: rat
  cashInBank :: rat
  expectedCash :: rat
  riskAdjustedCash :: rat
  investmentsCurrent :: rat
  investmentsCost :: rat
  openReceivablesTotal :: rat
  openPayablesTotal :: rat
  debtTotal :: rat
  netWorth :: rat

text \<open>\<open>accounts.find(a => a.id === t.accountId)?.type === "Banka"\<close>.\<close>

definition in_bank_account :: "account list \<Rightarrow> tx \<Rightarrow> bool" where
  "in_bank_account accs t =
     (case find (\<lambda>a. a_id a = accountId t) accs of
        None \<Rightarrow> False
      | Some a \<Rightarrow> a_type a = ''Banka'')"

definition openReceivables :: "debt list \<Rightarrow> debt list" where
  "openReceivables ds = filter (\<lambda>d. direction d = ''receivable'' \<and> d_status d = ''open'') ds"

definition openPayables :: "debt list \<Rightarrow> debt list" where
  "openPayables ds = filter (\<lambda>d. direction d = ''payable'' \<and> d_status d = ''open'') ds"

text \<open>\<open>today.getTime() + state.horizonDays * 86400000\<close>.\<close>

definition horizon :: "app_state \<Rightarrow> clock \<Rightarrow> int" where
  "horizon st c = now_ms c + horizonDays st * 86400000"

text \<open>The callback of the \<open>dueWithin\<close> filter.\<close>

definition due_in :: "(string \<Rightarrow> int option) \<Rightarrow> int \<Rightarrow> debt \<Rightarrow> bool" where
  "due_in date_time h d =
     (case (if truthy (dueDate d) then Some (date_time (or_empty (dueDate d))) else None) of
        None \<Rightarrow> True
      | Some None \<Rightarrow> True
      | Some (Some dd) \<Rightarrow> dd \<le> h)"

definition dueWithin :: "(string \<Rightarrow> int option) \<Rightarrow> app_state \<Rightarrow> clock \<Rightarrow> debt list \<Rightarrow> debt list" where
  "dueWithin date_time st c ds = filter (due_in date_time (horizon st c)) (openReceivables ds)"

text \<open>\<open>d.confidence ?? 60\<close>.\<close>

fun confidence_or_60 :: "debt \<Rightarrow> rat" where
  "confidence_or_60 d = (case confidence d of None \<Rightarrow> 60 | Some v \<Rightarrow> v)"

definition expectedIncluded :: "(string \<Rightarrow> int option) \<Rightarrow> app_state \<Rightarrow> clock \<Rightarrow> debt list \<Rightarrow> debt list" where
  "expectedIncluded date_time st c ds =
     filter (\<lambda>d. confidence_or_60 d \<ge> includeConfidenceMin st) (dueWithin date_time st c ds)"

definition computeBalances ::
  "(string \<Rightarrow> int option) \<Rightarrow> app_state \<Rightarrow> clock \<Rightarrow> db \<Rightarrow> balances" where
  "computeBalances date_time st c d =
     (let accs = accounts d; txs = transactions d; ds = debts d; ps = positions d;
          actual = foldl (\<lambda>sum a. sum + or0 (startingBalance a)) 0 accs
                   + foldl (\<lambda>sum t. sum + or0 (t_amount t)) 0 txs;
          bank = foldl (\<lambda>sum a. sum + or0 (startingBalance a)) 0
                   (filter (\<lambda>a. a_type a = ''Banka'') accs)
                 + foldl (\<lambda>sum t. sum + or0 (t_amount t)) 0
                     (filter (in_bank_account accs) txs);
          expected = actual
                     + foldl (\<lambda>s x. s + or0 (d_amount x)) 0 (expectedIncluded date_time st c ds);
          risk = actual
                 + foldl (\<lambda>s x. s + or0 (d_amount x) * clamp (confidence_or_60 x / 100) 0 1) 0
                     (dueWithin date_time st c ds);
          invCur = foldl (\<lambda>s p. s + or0 (currentValue p)) 0 ps;
          invCost = foldl (\<lambda>s p. s + or0 (qty p) * or0 (avgCost p)) 0 ps;
          debtTot = foldl (\<lambda>s x. s + or0 (d_amount x)) 0 (openPayables ds)
      in \<lparr> b_accounts = accs, b_txs = txs, b_debts = ds, b_positions = ps,
           actualCash = actual, cashInBank = bank,
           expectedCash = expected, riskAdjustedCash = risk,
           investmentsCurrent = invCur, investmentsCost = invCost,
           openReceivablesTotal = foldl (\<lambda>s x. s + or0 (d_amount x)) 0 (openReceivables ds),
           openPayablesTotal = foldl (\<lambda>s x. s + or0 (d_amount x)) 0 (openPayables ds),
           debtTotal = debtTot,
           netWorth = (actual + invCur) - debtTot \<rparr>)"

section \<open>Period aggregators\<close>

record monthly_pnl =
  income :: rat
  expense :: rat
  net :: rat
  pnl_start :: string
  pnl_end :: string

text \<open>
  The loop of \<open>computeMonthlyPnl\<close>, with the pair \<open>(income, expense)\<close> as its state; each
  \<open>continue\<close> is a branch that leaves the state as it is.
\<close>

fun pnl_loop :: "string \<Rightarrow> string \<Rightarrow> tx list \<Rightarrow> rat \<times> rat \<Rightarrow> rat \<times> rat" where
  "pnl_loop start end' [] acc = acc"
| "pnl_loop start end' (t # ts) (i, e) =
     (if \<not> truthy (t_date t) then pnl_loop start end' ts (i, e)
      else if or_empty (t_date t) < start \<or> or_empty (t_date t) > end'
        then pnl_loop start end' ts (i, e)
      else if t_type t = ''transfer'' then pnl_loop start end' ts (i, e)
      else (let amt = or0 (t_amount t)
            in if amt \<ge> 0 then pnl_loop start end' ts (i + amt, e)
               else pnl_loop start end' ts (i, e + \<bar>amt\<bar>)))"

definition computeMonthlyPnl :: "clock \<Rightarrow> db \<Rightarrow> monthly_pnl" where
  "computeMonthlyPnl c d =
     (let txs = transactions d; start = startOfMonthISO c; end' = endOfMonthISO c;
          r = pnl_loop start end' txs (0, 0)
      in \<lparr> income = fst r, expense = snd r, net = fst r - snd r,
           pnl_start = start, pnl_end = end' \<rparr>)"

record trade_stats =
  total_trades :: nat
  wins :: nat
  losses :: nat
  bes :: nat
  totalR :: rat
  winRate :: jsnum
  maxDrawdownR :: rat

text \<open>The trades of the current month, in store order.\<close>

definition month_trades :: "clock \<Rightarrow> trade list \<Rightarrow> trade list" where
  "month_trades c ts =
     filter (\<lambda>t. truthy (tr_date t) \<and> or_empty (tr_date t) \<ge> startOfMonthISO c
                 \<and> or_empty (tr_date t) \<le> endOfMonthISO c) ts"

text \<open>
  \<open>month.sort((a, b) => (a.date || "").localeCompare(b.date || ""))\<close>: a stable sort by
  the date string. \<open>localeCompare\<close> is modelled by the order of the code units, with
  which it agrees on ISO dates.
\<close>

definition sort_by_date :: "trade list \<Rightarrow> trade list" where
  "sort_by_date ts = sort_key (\<lambda>t. or_empty (tr_date t)) ts"

text \<open>One turn of the draw-down loop on its state \<open>(peak, dd, cum)\<close>.\<close>

fun dd_step :: "rat \<times> rat \<times> rat \<Rightarrow> trade \<Rightarrow> rat \<times> rat \<times> rat" where
  "dd_step (peak, dd, cum) t =
     (let cum' = cum + or0 (rMultiple t);
          peak' = (if cum' > peak then cum' else peak);
          dd' = min dd (cum' - peak')
      in (peak', dd', cum'))"

definition dd_loop :: "trade list \<Rightarrow> rat \<times> rat \<times> rat" where
  "dd_loop ts = foldl dd_step (0, 0, 0) ts"

definition computeTradeStats :: "clock \<Rightarrow> db \<Rightarrow> trade_stats" where
  "computeTradeStats c d =
     (let month = month_trades c (trades d);
          tot = length month;
          w = length (filter (\<lambda>t. tr_result t = ''win'') month);
          b = length (filter (\<lambda>t. tr_result t = ''be'') month);
          l = length (filter (\<lambda>t. tr_result t = ''loss'') month);
          tR = foldl (\<lambda>s t. s + or0 (rMultiple t)) 0 month;
          wr = (if tot \<noteq> 0 then js_times (js_div (of_nat w) (of_nat tot)) 100 else Fin 0)
      in \<lparr> total_trades = tot, wins = w, losses = l, bes = b, totalR = tR, winRate = wr,
           maxDrawdownR = fst (snd (dd_loop (sort_by_date month))) \<rparr>)"

section \<open>Goal progress and alerts\<close>

definition goal_current :: "goal \<Rightarrow> balances \<Rightarrow> monthly_pnl \<Rightarrow> rat option" where
  "goal_current g b monthly =
     (if g_type g = ''cashInBank'' then Some (cashInBank b)
      else if g_type g = ''actualCash'' then Some (actualCash b)
      else if g_type g = ''investments'' then Some (investmentsCurrent b)
      else if g_type g = ''netWorth'' then Some (netWorth b)
      else if g_type g = ''monthlyExpenseCap'' then Some (expense monthly)
      else None)"

definition goalProgress :: "goal \<Rightarrow> balances \<Rightarrow> monthly_pnl \<Rightarrow> jsnum option" where
  "goalProgress g b monthly =
     (case targetValue g of
        None \<Rightarrow> None
      | Some target \<Rightarrow>
          (case goal_current g b monthly of
             None \<Rightarrow> None
           | Some cur \<Rightarrow>
               (if g_type g = ''monthlyExpenseCap''
                then (if target \<noteq> 0 then Some (js_times (js_div cur target) 100)
                      else Some (Fin 0))
                else (if target \<noteq> 0 then Some (js_times (js_div cur target) 100)
                      else Some (Fin 0)))))"

text \<open>
  An alert keeps what its message is built from: the goal and \<open>Math.round(pct)\<close>. The
  message strings themselves are not modelled.
\<close>

datatype alert = Warning goal jsnum | Notice goal jsnum

text \<open>The test that skips a goal whose end date has passed.\<close>

definition goal_expired :: "(string \<Rightarrow> int option) \<Rightarrow> clock \<Rightarrow> goal \<Rightarrow> bool" where
  "goal_expired date_time c g =
     (if truthy (endDate g)
      then (case date_time (or_empty (endDate g)) of
              None \<Rightarrow> False
            | Some ed \<Rightarrow> ed < now_ms c)
      else False)"

fun alerts_loop ::
  "(string \<Rightarrow> int option) \<Rightarrow> clock \<Rightarrow> balances \<Rightarrow> monthly_pnl \<Rightarrow> goal list \<Rightarrow> alert list
     \<Rightarrow> alert list" where
  "alerts_loop date_time c b monthly [] alerts = alerts"
| "alerts_loop date_time c b monthly (g # gs) alerts =
     (if g_status g = ''archived'' then alerts_loop date_time c b monthly gs alerts
      else if goal_expired date_time c g then alerts_loop date_time c b monthly gs alerts
      else (case goalProgress g b monthly of
              None \<Rightarrow> alerts_loop date_time c b monthly gs alerts
            | Some pct \<Rightarrow>
                (if g_type g = ''monthlyExpenseCap''
                 then (if js_ge pct 80
                       then alerts_loop date_time c b monthly gs (alerts @ [Warning g (js_round pct)])
                       else alerts_loop date_time c b monthly gs alerts)
                 else (if js_lt pct 80 then alerts_loop date_time c b monthly gs alerts
                       else alerts_loop date_time c b monthly gs
                              (alerts @ [Notice g (js_round pct)])))))"

text \<open>What \<open>renderAlerts\<close> leaves in the alerts element.\<close>

record alerts_panel =
  hidden :: bool
  shown :: "alert list"

definition renderAlerts ::
  "(string \<Rightarrow> int option) \<Rightarrow> clock \<Rightarrow> db \<Rightarrow> balances \<Rightarrow> alerts_panel" where
  "renderAlerts date_time c d b =
     (let gs = goals d;
          monthly = computeMonthlyPnl c d;
          alerts = alerts_loop date_time c b monthly gs []
      in if alerts = [] then \<lparr> hidden = True, shown = [] \<rparr>
         else \<lparr> hidden = False, shown = take 3 alerts \<rparr>)"

section \<open>Export and import\<close>

text \<open>The dump: one array per object store, absent when the key is missing.\<close>

record dump =
  x_accounts :: "account list option"
  x_transactions :: "tx list option"
  x_categories :: "category list option"
  x_instruments :: "instrument list option"
  x_positions :: "position list option"
  x_debts :: "debt list option"
  x_trades :: "trade list option"
  x_goals :: "goal list option"
  x_snapshots :: "snapshot list option"
  x_meta :: "meta list option"
  exportedAt :: string
  version :: nat

definition DB_VERSION :: nat where
  "DB_VERSION = 1"

definition exportAll :: "clock \<Rightarrow> db \<Rightarrow> dump" where
  "exportAll c d =
     \<lparr> x_accounts = Some (accounts d), x_transactions = Some (transactions d),
       x_categories = Some (categories d), x_instruments = Some (instruments d),
       x_positions = Some (positions d), x_debts = Some (debts d),
       x_trades = Some (trades d), x_goals = Some (goals d),
       x_snapshots = Some (snapshots d), x_meta = Some (meta_store d),
       exportedAt = isoString c, version = DB_VERSION \<rparr>"

text \<open>One turn of the loop of \<open>importAll\<close>: clear the store, then put every item of
  \<open>data[s] || []\<close>.\<close>

definition import_store :: "('a \<Rightarrow> string) \<Rightarrow> 'a list option \<Rightarrow> 'a list \<Rightarrow> 'a list" where
  "import_store key arr xs =
     foldl (\<lambda>store item. idbPut key item store) (idbClear xs)
       (case arr of None \<Rightarrow> [] | Some a \<Rightarrow> a)"

fun meta_truthy :: "meta_value \<Rightarrow> bool" where
  "meta_truthy (MStr s) = (s \<noteq> [])"
| "meta_truthy (MBool b) = b"

definition loadCurrency :: "db \<Rightarrow> app_state \<Rightarrow> app_state" where
  "loadCurrency d st =
     (case idbGet m_key ''baseCurrency'' (meta_store d) of
        None \<Rightarrow> st
      | Some cur \<Rightarrow> (if meta_truthy (m_value cur) then st\<lparr>currency := m_value cur\<rparr> else st))"

definition importAll :: "dump \<Rightarrow> db \<Rightarrow> app_state \<Rightarrow> db \<times> app_state" where
  "importAll data d st =
     (let d' = \<lparr> accounts = import_store a_id (x_accounts data) (accounts d),
                 transactions = import_store t_id (x_transactions data) (transactions d),
                 categories = import_store c_id (x_categories data) (categories d),
                 instruments = import_store i_id (x_instruments data) (instruments d),
                 positions = import_store p_id (x_positions data) (positions d),
                 debts = import_store d_id (x_debts data) (debts d),
                 trades = import_store tr_id (x_trades data) (trades d),
                 goals = import_store g_id (x_goals data) (goals d),
                 snapshots = import_store s_id (x_snapshots data) (snapshots d),
                 meta_store = import_store m_key (x_meta data) (meta_store d) \<rparr>
      in (d', loadCurrency d' st))"


section \<open>The specification's wording, as definitions\<close>

subsection \<open>The last-separator rule\<close>

text \<open>Strip every character outside \<open>0-9 . , + -\<close>.\<close>

definition strip_amount :: "string \<Rightarrow> string" where
  "strip_amount s = filter amount_char s"

text \<open>
  The separator that occurs last is the decimal separator and becomes a dot; every other
  separator is removed; a string without separators stays as it is. \<open>post\<close> is what
  follows the last separator, \<open>pre\<close> what comes before it together with this separator.
\<close>

definition decimal_form :: "string \<Rightarrow> string" where
  "decimal_form t =
     (let post = rev (takeWhile (\<lambda>c. \<not> is_sep c) (rev t));
          pre = rev (dropWhile (\<lambda>c. \<not> is_sep c) (rev t))
      in if pre = [] then t
         else filter (\<lambda>c. \<not> is_sep c) (butlast pre) @ ''.'' @ post)"

subsection \<open>Horizon, month and draw-down\<close>

text \<open>
  The horizon rule in the words of the specification: a debt without due date is always
  due, a debt with a due date is due exactly when that date is not after the horizon.
\<close>

definition due_as_stated :: "(string \<Rightarrow> int option) \<Rightarrow> int \<Rightarrow> debt \<Rightarrow> bool" where
  "due_as_stated date_time h x =
     (case dueDate x of
        None \<Rightarrow> True
      | Some s \<Rightarrow> (case date_time s of None \<Rightarrow> False | Some dd \<Rightarrow> dd \<le> h))"

text \<open>A transaction dated within the current calendar month, first to last day.\<close>

definition tx_in_month :: "clock \<Rightarrow> tx \<Rightarrow> bool" where
  "tx_in_month c t =
     (truthy (t_date t) \<and> startOfMonthISO c \<le> or_empty (t_date t)
        \<and> or_empty (t_date t) \<le> endOfMonthISO c)"




subsection \<open>Alerts\<close>

text \<open>
  A goal that the alert pass considers and whose percentage is at least 80, and the alert
  it raises: a warning for an expense cap, a notice for every other type.
\<close>

definition alert_due ::
  "(string \<Rightarrow> int option) \<Rightarrow> clock \<Rightarrow> balances \<Rightarrow> monthly_pnl \<Rightarrow> goal \<Rightarrow> bool" where
  "alert_due date_time c b monthly g =
     (g_status g \<noteq> ''archived'' \<and> \<not> goal_expired date_time c g \<and>
      (case goalProgress g b monthly of None \<Rightarrow> False | Some pct \<Rightarrow> js_ge pct 80))"

definition alert_of :: "balances \<Rightarrow> monthly_pnl \<Rightarrow> goal \<Rightarrow> alert list" where
  "alert_of b monthly g =
     (case goalProgress g b monthly of
        None \<Rightarrow> []
      | Some pct \<Rightarrow>
          [if g_type g = ''monthlyExpenseCap'' then Warning g (js_round pct)
           else Notice g (js_round pct)])"

section \<open>Example data\<close>

definition ex_state :: app_state where
  "ex_state = \<lparr> tab = ''dashboard'', currency = MStr ''EUR'', horizonDays = 30,
                includeConfidenceMin = 60 \<rparr>"

text \<open>Midnight UTC of 15 January 2024.\<close>

definition ex_clock :: clock where
  "ex_clock = \<lparr> now_ms = 1705276800000, fullYear = 2024, month0 = 0,
                isoString = ''2024-01-15T00:00:00.000Z'' \<rparr>"

definition ex_bank :: account where
  "ex_bank = \<lparr> a_id = ''a1'', a_name = ''Ana Banka'', a_type = ''Banka'', a_currency = ''EUR'',
               startingBalance = Some 100, a_note = [] \<rparr>"

definition ex_cash :: account where
  "ex_cash = \<lparr> a_id = ''a2'', a_name = ''Nakit'', a_type = ''Nakit'', a_currency = ''EUR'',
               startingBalance = Some 50, a_note = [] \<rparr>"

definition ex_tx :: "string \<Rightarrow> string \<Rightarrow> string \<Rightarrow> string \<Rightarrow> rat \<Rightarrow> tx" where
  "ex_tx i ty dt acc amt =
     \<lparr> t_id = i, t_type = ty, t_date = Some dt, accountId = acc, categoryId = None,
       description = [], t_amount = Some amt, t_currency = ''EUR'', hash = [],
       transferGroupId = None \<rparr>"

definition ex_txs :: "tx list" where
  "ex_txs = [ex_tx ''t1'' ''normal'' ''2024-01-03'' ''a1'' (- 30),
             ex_tx ''t2'' ''normal'' ''2024-01-05'' ''a1'' 10,
             ex_tx ''t3'' ''transfer'' ''2024-01-06'' ''a1'' (- 20),
             ex_tx ''t4'' ''transfer'' ''2024-01-06'' ''a2'' 20,
             ex_tx ''t5'' ''normal'' ''2023-12-31'' ''a2'' 7]"

text \<open>A transaction whose account has been deleted.\<close>

definition ex_dangling :: tx where
  "ex_dangling = ex_tx ''t6'' ''normal'' ''2024-01-07'' ''gone'' 5"

definition ex_debt :: debt where
  "ex_debt = \<lparr> d_id = ''d1'', direction = ''receivable'', d_status = ''open'', person = ''Ada'',
               d_amount = Some 200, d_currency = ''EUR'', dueDate = Some ''2024-01-20'',
               confidence = Some 50, d_note = [] \<rparr>"

text \<open>An open receivable whose due date is no date.\<close>

definition ex_debt_undated :: debt where
  "ex_debt_undated = ex_debt \<lparr> d_id := ''d2'', dueDate := Some ''not a date'' \<rparr>"

definition ex_trade :: "string \<Rightarrow> string \<Rightarrow> string \<Rightarrow> rat \<Rightarrow> trade" where
  "ex_trade i dt res r =
     \<lparr> tr_id = i, tr_date = Some dt, tr_symbol = ''XAUUSD'', side = ''long'', tr_result = res,
       entry = 0, exit = 0, sl = 0, tp = 0, tr_size = 0, rMultiple = Some r, tag = [],
       tr_note = [] \<rparr>"

text \<open>
  Three trades of January 2024 with the R-multiples -1, -1, 3 in date order, stored in
  another order, and one trade of another month.
\<close>

definition ex_trades :: "trade list" where
  "ex_trades = [ex_trade ''r1'' ''2024-01-09'' ''win'' 3,
                ex_trade ''r2'' ''2024-01-02'' ''loss'' (- 1),
                ex_trade ''r3'' ''2024-01-04'' ''loss'' (- 1),
                ex_trade ''r4'' ''2023-11-30'' ''win'' 9]"

definition ex_goal :: "string \<Rightarrow> string \<Rightarrow> rat \<Rightarrow> string option \<Rightarrow> string \<Rightarrow> goal" where
  "ex_goal i ty target ed status =
     \<lparr> g_id = i, g_name = [], g_type = ty, targetValue = Some target, g_currency = ''EUR'',
       startDate = ''2024-01-01'', endDate = ed, g_description = [], g_status = status \<rparr>"

definition ex_goals :: "goal list" where
  "ex_goals = [ex_goal ''g1'' ''monthlyExpenseCap'' 35 None ''active'',
               ex_goal ''g2'' ''actualCash'' 100 None ''archived'',
               ex_goal ''g3'' ''actualCash'' 100 (Some ''2023-12-31'') ''active'',
               ex_goal ''g4'' ''actualCash'' 100 (Some ''2024-06-30'') ''active'',
               ex_goal ''g5'' ''cashInBank'' 1000 None ''active'',
               ex_goal ''g6'' ''netWorth'' 100 None ''active'',
               ex_goal ''g7'' ''investments'' 0 None ''active'',
               ex_goal ''g8'' ''cashInBank'' 50 None ''active'']"

definition ex_db :: db where
  "ex_db = \<lparr> accounts = [ex_bank, ex_cash], transactions = ex_txs,
             categories = [\<lparr> c_id = ''c1'', c_name = ''Market'' \<rparr>],
             instruments = [], positions = [], debts = [ex_debt], trades = ex_trades,
             goals = ex_goals, snapshots = [],
             meta_store = [\<lparr> m_key = ''baseCurrency'', m_value = MStr ''EUR'' \<rparr>,
                           \<lparr> m_key = ''seeded'', m_value = MBool True \<rparr>] \<rparr>"

section \<open>Properties of the normalisation\<close>

lemma filter_dropWhile_disjoint:
  "(\<And>x. Q x \<Longrightarrow> \<not> P x) \<Longrightarrow> filter P (dropWhile Q xs) = filter P xs"
  by (induction xs) auto

lemma space_not_amount: "is_space c \<Longrightarrow> \<not> amount_char c"
  by (auto simp: is_space_def amount_char_def)

lemma filter_amount_trim: "filter amount_char (js_trim s) = filter amount_char s"
proof -
  have "filter amount_char (js_trim s) = rev (filter amount_char (dropWhile is_space (rev (dropWhile is_space s))))"
    by (simp add: js_trim_def rev_filter)
  also have "\<dots> = rev (filter amount_char (rev (dropWhile is_space s)))"
    by (simp add: filter_dropWhile_disjoint space_not_amount)
  also have "\<dots> = filter amount_char (dropWhile is_space s)"
    by (simp add: rev_filter)
  also have "\<dots> = filter amount_char s"
    by (simp add: filter_dropWhile_disjoint space_not_amount)
  finally show ?thesis .
qed

lemma lastIndexOf_absent: "c \<notin> set xs \<Longrightarrow> js_lastIndexOf xs c = - 1"
  by (induction xs) (auto simp: Let_def)

lemma lastIndexOf_upper: "js_lastIndexOf xs c < int (length xs)"
  by (induction xs) (auto simp: Let_def)

lemma lastIndexOf_append_absent:
  "c \<notin> set ys \<Longrightarrow> js_lastIndexOf (xs @ ys) c = js_lastIndexOf xs c"
  by (induction xs) (auto simp: Let_def lastIndexOf_absent)

lemma lastIndexOf_last_occurrence:
  "c \<notin> set post \<Longrightarrow> js_lastIndexOf (pre @ c # post) c = int (length pre)"
  by (induction pre) (auto simp: Let_def lastIndexOf_absent)

lemma split_nonempty: "js_split xs c \<noteq> []"
  by (induction xs) (auto split: list.splits)

lemma split_absent: "c \<notin> set xs \<Longrightarrow> js_split xs c = [xs]"
  by (induction xs) (auto split: list.splits)

lemma split_last_occurrence:
  "c \<notin> set post \<Longrightarrow> js_split (pre @ c # post) c = js_split pre c @ [post]"
  by (induction pre) (auto simp: split_absent split_nonempty split: list.splits)

lemma concat_split: "concat (js_split xs c) = filter (\<lambda>x. x \<noteq> c) xs"
  by (induction xs) (auto split: list.splits)

lemma filter_sep_filter_neq:
  "is_sep d \<Longrightarrow> filter (\<lambda>x. x \<noteq> d \<and> \<not> is_sep x) xs = filter (\<lambda>c. \<not> is_sep c) xs"
  by (rule filter_cong) auto

lemma decimal_form_no_sep:
  assumes "list_all (\<lambda>c. \<not> is_sep c) t"
  shows "decimal_form t = t"
proof -
  have "dropWhile (\<lambda>c. \<not> is_sep c) (rev t) = []"
    using assms by (simp add: list_all_iff)
  then show ?thesis by (simp add: decimal_form_def)
qed

lemma decimal_form_last_sep:
  assumes "is_sep d" and "list_all (\<lambda>c. \<not> is_sep c) post"
  shows "decimal_form (pre @ d # post) = filter (\<lambda>c. \<not> is_sep c) pre @ ''.'' @ post"
proof -
  have p: "\<forall>x\<in>set (rev post). \<not> is_sep x"
    using assms(2) by (simp add: list_all_iff)
  have r: "rev (pre @ d # post) = rev post @ d # rev pre" by simp
  have t: "takeWhile (\<lambda>c. \<not> is_sep c) (rev (pre @ d # post)) = rev post"
    unfolding r using p assms(1) by (simp add: takeWhile_tail)
  have dw: "dropWhile (\<lambda>c. \<not> is_sep c) (rev (pre @ d # post)) = d # rev pre"
    unfolding r using p assms(1) by (simp add: dropWhile_append3)
  show ?thesis
    unfolding decimal_form_def Let_def t dw by simp
qed

lemma decimal_text_no_sep:
  assumes "list_all (\<lambda>c. \<not> is_sep c) t"
  shows "decimal_text t = t"
proof -
  have a: "CHR ''.'' \<notin> set t" "CHR '','' \<notin> set t"
    using assms by (auto simp: list_all_iff is_sep_def)
  have f: "filter (\<lambda>c. \<not> is_sep c) t = t"
    using assms by (simp add: list_all_iff)
  show ?thesis by (simp add: decimal_text_def lastIndexOf_absent a f)
qed

lemma decimal_text_dot:
  assumes post: "list_all (\<lambda>c. \<not> is_sep c) post"
  shows "decimal_text (pre @ CHR ''.'' # post) = filter (\<lambda>c. \<not> is_sep c) pre @ ''.'' @ post"
proof -
  have np: "CHR ''.'' \<notin> set post" "CHR '','' \<notin> set (CHR ''.'' # post)"
    using post by (auto simp: list_all_iff is_sep_def)
  have sep: "is_sep (CHR ''.'')" by (simp add: is_sep_def)
  have dot: "js_lastIndexOf (pre @ CHR ''.'' # post) (CHR ''.'') = int (length pre)"
    using np(1) by (rule lastIndexOf_last_occurrence)
  have "js_lastIndexOf (pre @ (CHR ''.'' # post)) (CHR '','') = js_lastIndexOf pre (CHR '','')"
    using np(2) by (rule lastIndexOf_append_absent)
  then have comma: "js_lastIndexOf (pre @ CHR ''.'' # post) (CHR '','') < int (length pre)"
    using lastIndexOf_upper [of pre "CHR '',''"] by simp
  have parts: "js_split (pre @ CHR ''.'' # post) (CHR ''.'') = js_split pre (CHR ''.'') @ [post]"
    using np(1) by (rule split_last_occurrence)
  have int_part: "filter (\<lambda>c. \<not> is_sep c) (concat (js_split pre (CHR ''.'')))
      = filter (\<lambda>c. \<not> is_sep c) pre"
    using sep by (simp add: concat_split filter_sep_filter_neq)
  have sel: "(if js_lastIndexOf (pre @ CHR ''.'' # post) (CHR ''.'')
                  > js_lastIndexOf (pre @ CHR ''.'' # post) (CHR '','') then Some (CHR ''.'')
              else if js_lastIndexOf (pre @ CHR ''.'' # post) (CHR '','')
                  > js_lastIndexOf (pre @ CHR ''.'' # post) (CHR ''.'') then Some (CHR '','')
              else None) = Some (CHR ''.'')"
    using dot comma by simp
  show ?thesis
    unfolding decimal_text_def Let_def sel option.case parts
    by (simp only: butlast_snoc last_snoc int_part)
qed

lemma decimal_text_comma:
  assumes post: "list_all (\<lambda>c. \<not> is_sep c) post"
  shows "decimal_text (pre @ CHR '','' # post) = filter (\<lambda>c. \<not> is_sep c) pre @ ''.'' @ post"
proof -
  have np: "CHR '','' \<notin> set post" "CHR ''.'' \<notin> set (CHR '','' # post)"
    using post by (auto simp: list_all_iff is_sep_def)
  have sep: "is_sep (CHR '','')" by (simp add: is_sep_def)
  have comma: "js_lastIndexOf (pre @ CHR '','' # post) (CHR '','') = int (length pre)"
    using np(1) by (rule lastIndexOf_last_occurrence)
  have "js_lastIndexOf (pre @ (CHR '','' # post)) (CHR ''.'') = js_lastIndexOf pre (CHR ''.'')"
    using np(2) by (rule lastIndexOf_append_absent)
  then have dot: "js_lastIndexOf (pre @ CHR '','' # post) (CHR ''.'') < int (length pre)"
    using lastIndexOf_upper [of pre "CHR ''.''"] by simp
  have parts: "js_split (pre @ CHR '','' # post) (CHR '','') = js_split pre (CHR '','') @ [post]"
    using np(1) by (rule split_last_occurrence)
  have int_part: "filter (\<lambda>c. \<not> is_sep c) (concat (js_split pre (CHR '','')))
      = filter (\<lambda>c. \<not> is_sep c) pre"
    using sep by (simp add: concat_split filter_sep_filter_neq)
  have sel: "(if js_lastIndexOf (pre @ CHR '','' # post) (CHR ''.'')
                  > js_lastIndexOf (pre @ CHR '','' # post) (CHR '','') then Some (CHR ''.'')
              else if js_lastIndexOf (pre @ CHR '','' # post) (CHR '','')
                  > js_lastIndexOf (pre @ CHR '','' # post) (CHR ''.'') then Some (CHR '','')
              else None) = Some (CHR '','')"
    using dot comma by simp
  show ?thesis
    unfolding decimal_text_def Let_def sel option.case parts
    by (simp only: butlast_snoc last_snoc int_part)
qed

lemma decimal_text_last_sep:
  assumes d: "is_sep d" and post: "list_all (\<lambda>c. \<not> is_sep c) post"
  shows "decimal_text (pre @ d # post) = filter (\<lambda>c. \<not> is_sep c) pre @ ''.'' @ post"
proof -
  from d consider "d = CHR ''.''" | "d = CHR '',''" by (auto simp: is_sep_def)
  then show ?thesis
  proof cases
    case 1
    show ?thesis unfolding 1 using post by (rule decimal_text_dot)
  next
    case 2
    show ?thesis unfolding 2 using post by (rule decimal_text_comma)
  qed
qed

lemma decimal_text_eq_form: "decimal_text t = decimal_form t"
proof (cases "list_all (\<lambda>c. \<not> is_sep c) t")
  case True
  then show ?thesis by (simp add: decimal_text_no_sep decimal_form_no_sep)
next
  case False
  then have "\<exists>x\<in>set t. is_sep x" by (simp add: list_all_iff)
  then obtain pre d post where t: "t = pre @ d # post" and d: "is_sep d"
    and post: "\<forall>z\<in>set post. \<not> is_sep z"
    using split_list_last_prop [of t is_sep] by blast
  from post have "list_all (\<lambda>c. \<not> is_sep c) post" by (simp add: list_all_iff)
  with d show ?thesis
    unfolding t by (simp add: decimal_text_last_sep decimal_form_last_sep)
qed

lemma parseAmount_text_eq: "parseAmount_text s = decimal_form (strip_amount s)"
  by (simp add: parseAmount_text_def strip_amount_def filter_amount_trim decimal_text_eq_form)

lemmas amount_eval = parseAmount_text_def decimal_text_def js_trim_def is_space_def amount_char_def
  is_sep_def js_Number_def unsigned_literal_def is_digit_def digits_val_def digit_val_def
  to_double_def strip_amount_def decimal_form_def

text \<open>
  Claim C3. For every input string, \<open>parseAmount\<close> strips the characters outside
  \<open>0-9 . , + -\<close>, takes the separator that occurs last in the cleaned string as the
  decimal separator and removes every other separator; the number is read from the
  resulting text, and 0 is returned when it is not a finite number. The second to fourth
  conjuncts say what \<open>strip_amount\<close> and \<open>decimal_form\<close> compute; the last four are the
  examples of the specification.
\<close>

theorem parseAmount_last_separator_rule:
  "parseAmount (JStr s) =
     (let n = js_Number (decimal_form (strip_amount s)) in if isFinite n then n else Fin 0)
   \<and> strip_amount s = filter (\<lambda>c. c \<in> set ''0123456789.,+-'') s
   \<and> (list_all (\<lambda>c. \<not> is_sep c) t \<longrightarrow> decimal_form t = t)
   \<and> (is_sep d \<and> list_all (\<lambda>c. \<not> is_sep c) post \<longrightarrow>
        decimal_form (pre @ d # post) = filter (\<lambda>c. \<not> is_sep c) pre @ ''.'' @ post)
   \<and> parseAmount (JStr ''1.234,56'') = Fin (123456 / 100)
   \<and> parseAmount (JStr ''1,234.56'') = Fin (123456 / 100)
   \<and> parseAmount (JStr '''') = Fin 0
   \<and> parseAmount (JStr ''-12,50'') = Fin (- (125 / 10))"
proof -
  have a: "parseAmount (JStr s) =
     (let n = js_Number (decimal_form (strip_amount s)) in if isFinite n then n else Fin 0)"
  proof (cases "s = []")
    case True
    then show ?thesis by (simp add: strip_amount_def decimal_form_def js_Number_def)
  next
    case False
    then show ?thesis by (simp add: parseAmount_text_eq)
  qed
  have b: "strip_amount s = filter (\<lambda>c. c \<in> set ''0123456789.,+-'') s"
    unfolding strip_amount_def by (rule filter_cong) (auto simp: amount_char_def)
  have e1: "parseAmount (JStr ''1.234,56'') = Fin (123456 / 100)"
    by (simp add: amount_eval)
  have e2: "parseAmount (JStr ''1,234.56'') = Fin (123456 / 100)"
    by (simp add: amount_eval)
  have e3: "parseAmount (JStr '''') = Fin 0"
    by simp
  have e4: "parseAmount (JStr ''-12,50'') = Fin (- (125 / 10))"
    by (simp add: amount_eval)
  show ?thesis
    using a b e1 e2 e3 e4 decimal_form_no_sep [of t] decimal_form_last_sep [of d post pre]
    by blast
qed


theorem parseAmount_last_separator_rule_witness:
  "is_sep (CHR '','') \<and> list_all (\<lambda>c. \<not> is_sep c) ''56'' \<and> list_all (\<lambda>c. \<not> is_sep c) ''1234''
   \<and> decimal_form (''1.234'' @ CHR '','' # ''56'') = ''1234.56''
   \<and> decimal_form ''1234'' = ''1234''
   \<and> parseAmount (JStr ''1.234,56'') = Fin (123456 / 100)"
  using parseAmount_last_separator_rule
    [where s = "''1.234,56''" and t = "''1234''" and d = "CHR '',''" and post = "''56''"
       and pre = "''1.234''"]
  by (simp add: amount_eval)

lemma set_decimal_form: "set (decimal_form t) \<subseteq> {c \<in> set t. \<not> is_sep c} \<union> {CHR ''.''}"
proof (cases "list_all (\<lambda>c. \<not> is_sep c) t")
  case True
  then show ?thesis by (auto simp: decimal_form_no_sep list_all_iff)
next
  case False
  then have "\<exists>x\<in>set t. is_sep x" by (simp add: list_all_iff)
  then obtain pre d post where t: "t = pre @ d # post" and d: "is_sep d"
    and post: "\<forall>z\<in>set post. \<not> is_sep z"
    using split_list_last_prop [of t is_sep] by blast
  from post have "list_all (\<lambda>c. \<not> is_sep c) post" by (simp add: list_all_iff)
  with d have "decimal_form t = filter (\<lambda>c. \<not> is_sep c) pre @ ''.'' @ post"
    unfolding t by (rule decimal_form_last_sep)
  then show ?thesis using post by (auto simp: t)
qed

lemma parseAmount_text_chars: "set (parseAmount_text s) \<subseteq> set ''0123456789.+-''"
proof -
  have "set (parseAmount_text s) \<subseteq> {c \<in> set (strip_amount s). \<not> is_sep c} \<union> {CHR ''.''}"
    unfolding parseAmount_text_eq by (rule set_decimal_form)
  also have "\<dots> \<subseteq> set ''0123456789.+-''"
    by (auto simp: strip_amount_def amount_char_def is_sep_def)
  finally show ?thesis .
qed

text \<open>
  The guard \<open>Number.isFinite\<close> is what keeps a long run of digits from coming back as
  \<open>Infinity\<close>.
\<close>

lemma parseAmount_overflow:
  "js_Number ''1000000000000000000000000000000000000000000000000000000000000000000000000000000000000000000000000000000000000000000000000000000000000000000000000000000000000000000000000000000000000000000000000000000000000000000000000000000000000000000000000000000000000000000000000000000000000000000000000000000000000000000000'' = PosInf"
  by (simp add: amount_eval)

text \<open>
  Claim C6, as amended. For every string input (and for \<open>null\<close> and \<open>undefined\<close>)
  \<open>parseAmount\<close> returns a finite number, and a text that \<open>Number\<close> reads as \<open>NaN\<close> or as
  an infinity gives 0. A number-typed input is returned as it is, so the result is finite
  exactly when the input is.
\<close>

theorem parseAmount_string_finite:
  "isFinite (parseAmount (JStr s)) \<and> isFinite (parseAmount JNull)
   \<and> isFinite (parseAmount JUndefined)
   \<and> (\<not> isFinite (js_Number (parseAmount_text s)) \<longrightarrow> parseAmount (JStr s) = Fin 0)
   \<and> parseAmount (JNum n) = n
   \<and> isFinite (parseAmount (JNum n)) = isFinite n"
  by (simp add: Let_def)

theorem parseAmount_string_finite_witness:
  "\<not> isFinite (js_Number (parseAmount_text ''1-2'')) \<and> parseAmount (JStr ''1-2'') = Fin 0
   \<and> isFinite (parseAmount (JStr ''1-2''))"
  using parseAmount_string_finite [where s = "''1-2''" and n = "Fin 0"]
  by (simp add: amount_eval)

text \<open>
  Claim C6 as stated fails on number-typed input: \<open>NaN\<close> and \<open>Infinity\<close> pass through the
  first line of \<open>parseAmount\<close>.
\<close>

theorem parseAmount_number_counterexample:
  "\<not> isFinite (parseAmount (JNum NaN)) \<and> parseAmount (JNum PosInf) = PosInf"
  by simp

section \<open>Properties of the balance engine\<close>

lemma foldl_plus_sum_list:
  "foldl (\<lambda>s x. s + f x) a xs = (a::rat) + sum_list (map f xs)"
  by (induction xs arbitrary: a) (simp_all add: add.assoc)

lemma dueWithin_filter:
  "dueWithin date_time st c ds =
     filter (\<lambda>x. direction x = ''receivable'' \<and> d_status x = ''open''
                 \<and> due_in date_time (horizon st c) x) ds"
  unfolding dueWithin_def openReceivables_def filter_filter
  by (rule filter_cong) auto

lemma expectedIncluded_filter:
  "expectedIncluded date_time st c ds =
     filter (\<lambda>x. direction x = ''receivable'' \<and> d_status x = ''open''
                 \<and> due_in date_time (horizon st c) x
                 \<and> includeConfidenceMin st \<le> confidence_or_60 x) ds"
  unfolding expectedIncluded_def dueWithin_filter filter_filter
  by (rule filter_cong) auto

lemma actualCash_eq:
  "actualCash (computeBalances date_time st c d) =
     sum_list (map (\<lambda>a. or0 (startingBalance a)) (accounts d))
     + sum_list (map (\<lambda>t. or0 (t_amount t)) (transactions d))"
  by (simp add: computeBalances_def Let_def foldl_plus_sum_list)

lemma cashInBank_eq:
  "cashInBank (computeBalances date_time st c d) =
     sum_list (map (\<lambda>a. or0 (startingBalance a)) (filter (\<lambda>a. a_type a = ''Banka'') (accounts d)))
     + sum_list (map (\<lambda>t. or0 (t_amount t)) (filter (in_bank_account (accounts d)) (transactions d)))"
  by (simp add: computeBalances_def Let_def foldl_plus_sum_list)

lemma expectedCash_eq:
  "expectedCash (computeBalances date_time st c d) =
     actualCash (computeBalances date_time st c d)
     + sum_list (map (\<lambda>x. or0 (d_amount x)) (expectedIncluded date_time st c (debts d)))"
  by (simp add: computeBalances_def Let_def foldl_plus_sum_list)

lemma riskAdjustedCash_eq:
  "riskAdjustedCash (computeBalances date_time st c d) =
     actualCash (computeBalances date_time st c d)
     + sum_list (map (\<lambda>x. or0 (d_amount x) * clamp (confidence_or_60 x / 100) 0 1)
                  (dueWithin date_time st c (debts d)))"
  by (simp add: computeBalances_def Let_def foldl_plus_sum_list)

lemma dueWithin_min_irrelevant:
  "dueWithin date_time (st\<lparr>includeConfidenceMin := m\<rparr>) c ds = dueWithin date_time st c ds"
  by (simp add: dueWithin_def horizon_def)

text \<open>
  Claim C1. For every debts list and configuration, \<open>expectedCash\<close> is \<open>actualCash\<close> plus the
  amounts of the open receivables that are due within the horizon and whose confidence
  (60 when the field is absent) is at least \<open>includeConfidenceMin\<close>; \<open>riskAdjustedCash\<close> is
  \<open>actualCash\<close> plus, over all open receivables due within the horizon, the amount times
  the confidence fraction clamped to the interval from 0 to 1, whatever the threshold is.
  With one open receivable of amount 200 and confidence 50 that is due within the
  horizon, \<open>riskAdjustedCash\<close> is \<open>actualCash + 100\<close>, and \<open>expectedCash\<close> is \<open>actualCash + 0\<close>
  under the threshold 60.
\<close>

theorem computeBalances_expected_and_risk:
  "expectedCash (computeBalances date_time st c d) =
     actualCash (computeBalances date_time st c d)
     + sum_list (map (\<lambda>x. or0 (d_amount x))
         (filter (\<lambda>x. direction x = ''receivable'' \<and> d_status x = ''open''
                      \<and> due_in date_time (horizon st c) x
                      \<and> includeConfidenceMin st \<le> confidence_or_60 x) (debts d)))
   \<and> riskAdjustedCash (computeBalances date_time st c d) =
     actualCash (computeBalances date_time st c d)
     + sum_list (map (\<lambda>x. or0 (d_amount x) * clamp (confidence_or_60 x / 100) 0 1)
         (filter (\<lambda>x. direction x = ''receivable'' \<and> d_status x = ''open''
                      \<and> due_in date_time (horizon st c) x) (debts d)))
   \<and> riskAdjustedCash (computeBalances date_time (st\<lparr>includeConfidenceMin := m\<rparr>) c d) =
     riskAdjustedCash (computeBalances date_time st c d)
   \<and> (debts d = [x] \<and> direction x = ''receivable'' \<and> d_status x = ''open''
        \<and> d_amount x = Some 200 \<and> confidence x = Some 50
        \<and> due_in date_time (horizon st c) x \<longrightarrow>
      riskAdjustedCash (computeBalances date_time st c d) =
        actualCash (computeBalances date_time st c d) + 100
      \<and> (includeConfidenceMin st = 60 \<longrightarrow>
           expectedCash (computeBalances date_time st c d) =
             actualCash (computeBalances date_time st c d) + 0))"
proof -
  have e: "expectedCash (computeBalances date_time st c d) =
     actualCash (computeBalances date_time st c d)
     + sum_list (map (\<lambda>x. or0 (d_amount x))
         (filter (\<lambda>x. direction x = ''receivable'' \<and> d_status x = ''open''
                      \<and> due_in date_time (horizon st c) x
                      \<and> includeConfidenceMin st \<le> confidence_or_60 x) (debts d)))"
    by (simp only: expectedCash_eq expectedIncluded_filter)
  have r: "riskAdjustedCash (computeBalances date_time st c d) =
     actualCash (computeBalances date_time st c d)
     + sum_list (map (\<lambda>x. or0 (d_amount x) * clamp (confidence_or_60 x / 100) 0 1)
         (filter (\<lambda>x. direction x = ''receivable'' \<and> d_status x = ''open''
                      \<and> due_in date_time (horizon st c) x) (debts d)))"
    by (simp only: riskAdjustedCash_eq dueWithin_filter)
  have a: "actualCash (computeBalances date_time (st\<lparr>includeConfidenceMin := m\<rparr>) c d) =
      actualCash (computeBalances date_time st c d)"
    by (simp only: actualCash_eq)
  have i: "riskAdjustedCash (computeBalances date_time (st\<lparr>includeConfidenceMin := m\<rparr>) c d) =
     riskAdjustedCash (computeBalances date_time st c d)"
    by (simp only: riskAdjustedCash_eq dueWithin_min_irrelevant a)
  have x: "debts d = [x] \<and> direction x = ''receivable'' \<and> d_status x = ''open''
        \<and> d_amount x = Some 200 \<and> confidence x = Some 50
        \<and> due_in date_time (horizon st c) x \<longrightarrow>
      riskAdjustedCash (computeBalances date_time st c d) =
        actualCash (computeBalances date_time st c d) + 100
      \<and> (includeConfidenceMin st = 60 \<longrightarrow>
           expectedCash (computeBalances date_time st c d) =
             actualCash (computeBalances date_time st c d) + 0)"
    unfolding e r by (simp add: clamp_def)
  from e r i x show ?thesis by blast
qed

lemmas date_eval = iso_date_time_def is_digit_def digits_val_def digit_val_def
  days_in_month_def is_leap_def days_before_year_def days_before_month_def upt_rec

lemmas example_eval = ex_db_def ex_state_def ex_clock_def ex_bank_def ex_cash_def ex_txs_def
  ex_tx_def ex_debt_def ex_trades_def ex_trade_def ex_goals_def ex_goal_def

theorem computeBalances_expected_and_risk_witness:
  "debts ex_db = [ex_debt] \<and> direction ex_debt = ''receivable'' \<and> d_status ex_debt = ''open''
   \<and> d_amount ex_debt = Some 200 \<and> confidence ex_debt = Some 50
   \<and> due_in iso_date_time (horizon ex_state ex_clock) ex_debt
   \<and> includeConfidenceMin ex_state = 60
   \<and> actualCash (computeBalances iso_date_time ex_state ex_clock ex_db) = 137
   \<and> riskAdjustedCash (computeBalances iso_date_time ex_state ex_clock ex_db) = 237
   \<and> expectedCash (computeBalances iso_date_time ex_state ex_clock ex_db) = 137"
proof -
  have due: "due_in iso_date_time (horizon ex_state ex_clock) ex_debt"
    by (simp add: due_in_def horizon_def date_eval example_eval)
  have pre: "debts ex_db = [ex_debt] \<and> direction ex_debt = ''receivable''
      \<and> d_status ex_debt = ''open'' \<and> d_amount ex_debt = Some 200
      \<and> confidence ex_debt = Some 50 \<and> includeConfidenceMin ex_state = 60"
    by (simp add: example_eval)
  have act: "actualCash (computeBalances iso_date_time ex_state ex_clock ex_db) = 137"
    by (simp add: actualCash_eq example_eval)
  show ?thesis
    using computeBalances_expected_and_risk
      [where date_time = iso_date_time and st = ex_state and c = ex_clock and d = ex_db
         and x = ex_debt and m = 0]
      due pre act
    by simp
qed


text \<open>
  Claim C5, as amended. A debt is in the due-within-horizon set exactly when it is an open
  receivable of the debts list and its due date is \<open>null\<close>, or empty, or not a valid date,
  or a date whose time value is at most the time of the call plus \<open>horizonDays\<close> days.
\<close>

theorem dueWithin_membership:
  "x \<in> set (dueWithin date_time st c ds) \<longleftrightarrow>
     x \<in> set ds \<and> direction x = ''receivable'' \<and> d_status x = ''open'' \<and>
     (dueDate x = None \<or> dueDate x = Some [] \<or> date_time (or_empty (dueDate x)) = None
      \<or> (\<exists>dd. date_time (or_empty (dueDate x)) = Some dd
               \<and> dd \<le> now_ms c + horizonDays st * 86400000))"
proof (cases "dueDate x")
  case None
  then show ?thesis by (simp add: dueWithin_filter due_in_def)
next
  case (Some s)
  show ?thesis
  proof (cases "s = []")
    case True
    with Some show ?thesis by (simp add: dueWithin_filter due_in_def)
  next
    case False
    with Some show ?thesis
      by (cases "date_time s") (simp_all add: dueWithin_filter due_in_def horizon_def)
  qed
qed

theorem dueWithin_membership_witness:
  "(ex_debt \<in> set (dueWithin iso_date_time ex_state ex_clock [ex_debt_undated, ex_debt]))
   \<and> iso_date_time (or_empty (dueDate ex_debt)) = Some 1705708800000
   \<and> (1705708800000 :: int) \<le> now_ms ex_clock + horizonDays ex_state * 86400000
   \<and> (ex_debt_undated \<in> set (dueWithin iso_date_time ex_state ex_clock [ex_debt_undated, ex_debt]))
   \<and> iso_date_time (or_empty (dueDate ex_debt_undated)) = None"
proof -
  have t: "iso_date_time (or_empty (dueDate ex_debt)) = Some 1705708800000"
    by (simp add: date_eval example_eval)
  have u: "iso_date_time (or_empty (dueDate ex_debt_undated)) = None"
    by (simp add: ex_debt_undated_def iso_date_time_def is_digit_def example_eval)
  have h: "(1705708800000 :: int) \<le> now_ms ex_clock + horizonDays ex_state * 86400000"
    by (simp add: example_eval)
  have s: "direction ex_debt = ''receivable'' \<and> d_status ex_debt = ''open''
     \<and> direction ex_debt_undated = ''receivable'' \<and> d_status ex_debt_undated = ''open''"
    by (simp add: ex_debt_undated_def example_eval)
  show ?thesis
    using dueWithin_membership
        [where x = ex_debt and date_time = iso_date_time and st = ex_state and c = ex_clock
           and ds = "[ex_debt_undated, ex_debt]"]
      dueWithin_membership
        [where x = ex_debt_undated and date_time = iso_date_time and st = ex_state
           and c = ex_clock and ds = "[ex_debt_undated, ex_debt]"]
      t u h s
    by simp
qed

text \<open>
  Claim C5 as stated fails for a due date that is not \<open>null\<close> and not a date: the debt
  is included although no date of it lies within the horizon.
\<close>

theorem due_as_stated_counterexample:
  "dueDate ex_debt_undated = Some ''not a date''
   \<and> ex_debt_undated \<in> set (dueWithin iso_date_time ex_state ex_clock [ex_debt_undated])
   \<and> \<not> due_as_stated iso_date_time (horizon ex_state ex_clock) ex_debt_undated"
  by (simp add: dueWithin_filter due_in_def due_as_stated_def ex_debt_undated_def
      iso_date_time_def is_digit_def example_eval)

lemma in_bank_account_resolves:
  "in_bank_account accs t \<Longrightarrow> \<exists>a\<in>set accs. a_id a = accountId t \<and> a_type a = ''Banka''"
  unfolding in_bank_account_def
  by (auto split: option.splits simp: find_Some_iff)

lemma dangling_not_in_bank:
  "accountId t \<notin> a_id ` set accs \<Longrightarrow> \<not> in_bank_account accs t"
  using in_bank_account_resolves [of accs t] by (metis imageI)

text \<open>
  Claim C10. A transaction whose \<open>accountId\<close> matches no stored account is looked up
  without failure (the lookup finds nothing), adds its amount to \<open>actualCash\<close> and leaves
  \<open>cashInBank\<close> as it is, wherever it stands among the transactions; \<open>cashInBank\<close> sums,
  besides the starting balances of the bank accounts, only transactions whose
  \<open>accountId\<close> is the id of a stored account of type \<open>Banka\<close>.
\<close>

theorem computeBalances_dangling_account:
  "(accountId t \<notin> a_id ` set (accounts d) \<longrightarrow>
      find (\<lambda>a. a_id a = accountId t) (accounts d) = None
      \<and> actualCash (computeBalances date_time st c (d\<lparr>transactions := pre @ t # post\<rparr>)) =
          actualCash (computeBalances date_time st c (d\<lparr>transactions := pre @ post\<rparr>))
          + or0 (t_amount t)
      \<and> cashInBank (computeBalances date_time st c (d\<lparr>transactions := pre @ t # post\<rparr>)) =
          cashInBank (computeBalances date_time st c (d\<lparr>transactions := pre @ post\<rparr>)))
   \<and> cashInBank (computeBalances date_time st c d) =
       sum_list (map (\<lambda>a. or0 (startingBalance a))
                   (filter (\<lambda>a. a_type a = ''Banka'') (accounts d)))
       + sum_list (map (\<lambda>t. or0 (t_amount t))
                   (filter (in_bank_account (accounts d)) (transactions d)))
   \<and> (in_bank_account (accounts d) t \<longrightarrow>
        (\<exists>a\<in>set (accounts d). a_id a = accountId t \<and> a_type a = ''Banka''))"
proof -
  have dang: "accountId t \<notin> a_id ` set (accounts d) \<longrightarrow>
      find (\<lambda>a. a_id a = accountId t) (accounts d) = None
      \<and> actualCash (computeBalances date_time st c (d\<lparr>transactions := pre @ t # post\<rparr>)) =
          actualCash (computeBalances date_time st c (d\<lparr>transactions := pre @ post\<rparr>))
          + or0 (t_amount t)
      \<and> cashInBank (computeBalances date_time st c (d\<lparr>transactions := pre @ t # post\<rparr>)) =
          cashInBank (computeBalances date_time st c (d\<lparr>transactions := pre @ post\<rparr>))"
  proof
    assume a: "accountId t \<notin> a_id ` set (accounts d)"
    then have nb: "\<not> in_bank_account (accounts d) t" by (rule dangling_not_in_bank)
    from a have f: "find (\<lambda>a. a_id a = accountId t) (accounts d) = None"
      unfolding find_None_iff by (metis imageI)
    have ac: "actualCash (computeBalances date_time st c (d\<lparr>transactions := pre @ t # post\<rparr>)) =
          actualCash (computeBalances date_time st c (d\<lparr>transactions := pre @ post\<rparr>))
          + or0 (t_amount t)"
      by (simp add: actualCash_eq)
    have cb: "cashInBank (computeBalances date_time st c (d\<lparr>transactions := pre @ t # post\<rparr>)) =
          cashInBank (computeBalances date_time st c (d\<lparr>transactions := pre @ post\<rparr>))"
      using nb by (simp add: cashInBank_eq)
    from f ac cb show "find (\<lambda>a. a_id a = accountId t) (accounts d) = None
      \<and> actualCash (computeBalances date_time st c (d\<lparr>transactions := pre @ t # post\<rparr>)) =
          actualCash (computeBalances date_time st c (d\<lparr>transactions := pre @ post\<rparr>))
          + or0 (t_amount t)
      \<and> cashInBank (computeBalances date_time st c (d\<lparr>transactions := pre @ t # post\<rparr>)) =
          cashInBank (computeBalances date_time st c (d\<lparr>transactions := pre @ post\<rparr>))"
      by blast
  qed
  show ?thesis
    using dang cashInBank_eq [of date_time st c d] in_bank_account_resolves [of "accounts d" t]
    by blast
qed

theorem computeBalances_dangling_account_witness:
  "accountId ex_dangling \<notin> a_id ` set (accounts ex_db)
   \<and> actualCash (computeBalances iso_date_time ex_state ex_clock
        (ex_db\<lparr>transactions := ex_txs @ [ex_dangling]\<rparr>)) = 142
   \<and> actualCash (computeBalances iso_date_time ex_state ex_clock ex_db) = 137
   \<and> cashInBank (computeBalances iso_date_time ex_state ex_clock
        (ex_db\<lparr>transactions := ex_txs @ [ex_dangling]\<rparr>)) = 60
   \<and> cashInBank (computeBalances iso_date_time ex_state ex_clock ex_db) = 60"
proof -
  have a: "accountId ex_dangling \<notin> a_id ` set (accounts ex_db)"
    by (simp add: ex_dangling_def example_eval)
  have b: "ex_db\<lparr>transactions := ex_txs @ []\<rparr> = ex_db"
    by (simp add: example_eval)
  have c: "actualCash (computeBalances iso_date_time ex_state ex_clock ex_db) = 137"
    by (simp add: actualCash_eq example_eval)
  have e: "cashInBank (computeBalances iso_date_time ex_state ex_clock ex_db) = 60"
    by (simp add: cashInBank_eq in_bank_account_def example_eval)
  have o: "or0 (t_amount ex_dangling) = 5"
    by (simp add: ex_dangling_def ex_tx_def)
  show ?thesis
    using computeBalances_dangling_account
      [where t = ex_dangling and d = ex_db and pre = ex_txs and post = "[]"
         and date_time = iso_date_time and st = ex_state and c = ex_clock]
      a b c e o
    by simp
qed

section \<open>Properties of the period aggregators and of goal progress\<close>

lemma pnl_loop_sums:
  "pnl_loop s e txs (i, x) =
     (i + sum_list (map (\<lambda>t. or0 (t_amount t))
            (filter (\<lambda>t. truthy (t_date t) \<and> s \<le> or_empty (t_date t)
                         \<and> or_empty (t_date t) \<le> e \<and> t_type t \<noteq> ''transfer''
                         \<and> 0 \<le> or0 (t_amount t)) txs)),
      x + sum_list (map (\<lambda>t. \<bar>or0 (t_amount t)\<bar>)
            (filter (\<lambda>t. truthy (t_date t) \<and> s \<le> or_empty (t_date t)
                         \<and> or_empty (t_date t) \<le> e \<and> t_type t \<noteq> ''transfer''
                         \<and> or0 (t_amount t) < 0) txs)))"
proof (induction txs arbitrary: i x)
  case Nil
  show ?case by simp
next
  case (Cons t ts)
  show ?case
    by (auto simp add: Cons.IH Let_def)
qed

lemma pnl_loop_skips_transfers:
  "pnl_loop s e (filter (\<lambda>t. t_type t \<noteq> ''transfer'') txs) acc = pnl_loop s e txs acc"
proof (induction txs arbitrary: acc)
  case Nil
  show ?case by simp
next
  case (Cons t ts)
  obtain i x where acc: "acc = (i, x)" by (cases acc)
  show ?case unfolding acc by (simp add: Cons.IH Let_def)
qed

lemmas month_eval = startOfMonthISO_def endOfMonthISO_def pad2_def digit_char_def
  days_in_month_def is_leap_def

text \<open>
  Claim C4. \<open>computeMonthlyPnl\<close> ranges over the transactions dated within the current
  calendar month; \<open>income\<close> is the sum of their non-negative amounts and \<open>expense\<close> the sum
  of the absolute values of their negative amounts, transfers left out of both; \<open>net\<close> is
  \<open>income - expense\<close>. Removing every transfer from the store, or one transfer from any
  place in it, leaves the whole result as it is.
\<close>

theorem computeMonthlyPnl_sums:
  "income (computeMonthlyPnl c d) =
     sum_list (map (\<lambda>t. or0 (t_amount t))
       (filter (\<lambda>t. tx_in_month c t \<and> t_type t \<noteq> ''transfer'' \<and> 0 \<le> or0 (t_amount t))
          (transactions d)))
   \<and> expense (computeMonthlyPnl c d) =
     sum_list (map (\<lambda>t. \<bar>or0 (t_amount t)\<bar>)
       (filter (\<lambda>t. tx_in_month c t \<and> t_type t \<noteq> ''transfer'' \<and> or0 (t_amount t) < 0)
          (transactions d)))
   \<and> net (computeMonthlyPnl c d) = income (computeMonthlyPnl c d) - expense (computeMonthlyPnl c d)
   \<and> computeMonthlyPnl c (d\<lparr>transactions := filter (\<lambda>t. t_type t \<noteq> ''transfer'') (transactions d)\<rparr>)
       = computeMonthlyPnl c d
   \<and> (t_type t = ''transfer'' \<longrightarrow>
        computeMonthlyPnl c (d\<lparr>transactions := pre @ t # post\<rparr>)
          = computeMonthlyPnl c (d\<lparr>transactions := pre @ post\<rparr>))
   \<and> pnl_start (computeMonthlyPnl c d) = startOfMonthISO c
   \<and> pnl_end (computeMonthlyPnl c d) = endOfMonthISO c"
proof -
  have i: "income (computeMonthlyPnl c d) =
     sum_list (map (\<lambda>t. or0 (t_amount t))
       (filter (\<lambda>t. tx_in_month c t \<and> t_type t \<noteq> ''transfer'' \<and> 0 \<le> or0 (t_amount t))
          (transactions d)))"
    by (simp add: computeMonthlyPnl_def Let_def pnl_loop_sums tx_in_month_def conj_assoc)
  have e: "expense (computeMonthlyPnl c d) =
     sum_list (map (\<lambda>t. \<bar>or0 (t_amount t)\<bar>)
       (filter (\<lambda>t. tx_in_month c t \<and> t_type t \<noteq> ''transfer'' \<and> or0 (t_amount t) < 0)
          (transactions d)))"
    by (simp add: computeMonthlyPnl_def Let_def pnl_loop_sums tx_in_month_def conj_assoc)
  have n: "net (computeMonthlyPnl c d) = income (computeMonthlyPnl c d) - expense (computeMonthlyPnl c d)"
    by (simp add: computeMonthlyPnl_def Let_def)
  have f: "computeMonthlyPnl c (d\<lparr>transactions := filter (\<lambda>t. t_type t \<noteq> ''transfer'') (transactions d)\<rparr>)
       = computeMonthlyPnl c d"
    by (simp add: computeMonthlyPnl_def Let_def pnl_loop_skips_transfers)
  have g: "t_type t = ''transfer'' \<longrightarrow>
        computeMonthlyPnl c (d\<lparr>transactions := pre @ t # post\<rparr>)
          = computeMonthlyPnl c (d\<lparr>transactions := pre @ post\<rparr>)"
  proof
    assume tr: "t_type t = ''transfer''"
    have "pnl_loop (startOfMonthISO c) (endOfMonthISO c) (pre @ t # post) (0, 0)
        = pnl_loop (startOfMonthISO c) (endOfMonthISO c) (pre @ post) (0, 0)"
      using tr by (simp add: pnl_loop_sums)
    then show "computeMonthlyPnl c (d\<lparr>transactions := pre @ t # post\<rparr>)
          = computeMonthlyPnl c (d\<lparr>transactions := pre @ post\<rparr>)"
      by (simp add: computeMonthlyPnl_def Let_def)
  qed
  have s: "pnl_start (computeMonthlyPnl c d) = startOfMonthISO c
      \<and> pnl_end (computeMonthlyPnl c d) = endOfMonthISO c"
    by (simp add: computeMonthlyPnl_def Let_def)
  from i e n f g s show ?thesis by blast
qed

theorem computeMonthlyPnl_sums_witness:
  "t_type (ex_tx ''t3'' ''transfer'' ''2024-01-06'' ''a1'' (- 20)) = ''transfer''
   \<and> computeMonthlyPnl ex_clock ex_db
       = \<lparr> income = 10, expense = 30, net = - 20, pnl_start = ''2024-01-01'',
           pnl_end = ''2024-01-31'' \<rparr>
   \<and> computeMonthlyPnl ex_clock (ex_db\<lparr>transactions :=
        [ex_tx ''t1'' ''normal'' ''2024-01-03'' ''a1'' (- 30),
         ex_tx ''t2'' ''normal'' ''2024-01-05'' ''a1'' 10]
        @ [ex_tx ''t4'' ''transfer'' ''2024-01-06'' ''a2'' 20,
           ex_tx ''t5'' ''normal'' ''2023-12-31'' ''a2'' 7]\<rparr>)
       = computeMonthlyPnl ex_clock ex_db"
proof -
  have v: "computeMonthlyPnl ex_clock ex_db
       = \<lparr> income = 10, expense = 30, net = - 20, pnl_start = ''2024-01-01'',
           pnl_end = ''2024-01-31'' \<rparr>"
    by (simp add: computeMonthlyPnl_def month_eval example_eval)
  have q: "ex_db\<lparr>transactions :=
        [ex_tx ''t1'' ''normal'' ''2024-01-03'' ''a1'' (- 30),
         ex_tx ''t2'' ''normal'' ''2024-01-05'' ''a1'' 10]
        @ ex_tx ''t3'' ''transfer'' ''2024-01-06'' ''a1'' (- 20)
        # [ex_tx ''t4'' ''transfer'' ''2024-01-06'' ''a2'' 20,
           ex_tx ''t5'' ''normal'' ''2023-12-31'' ''a2'' 7]\<rparr> = ex_db"
    by (simp add: ex_db_def ex_txs_def)
  have ty: "t_type (ex_tx ''t3'' ''transfer'' ''2024-01-06'' ''a1'' (- 20)) = ''transfer''"
    by (simp add: ex_tx_def)
  have "computeMonthlyPnl ex_clock (ex_db\<lparr>transactions :=
        [ex_tx ''t1'' ''normal'' ''2024-01-03'' ''a1'' (- 30),
         ex_tx ''t2'' ''normal'' ''2024-01-05'' ''a1'' 10]
        @ ex_tx ''t3'' ''transfer'' ''2024-01-06'' ''a1'' (- 20)
        # [ex_tx ''t4'' ''transfer'' ''2024-01-06'' ''a2'' 20,
           ex_tx ''t5'' ''normal'' ''2023-12-31'' ''a2'' 7]\<rparr>)
     = computeMonthlyPnl ex_clock (ex_db\<lparr>transactions :=
        [ex_tx ''t1'' ''normal'' ''2024-01-03'' ''a1'' (- 30),
         ex_tx ''t2'' ''normal'' ''2024-01-05'' ''a1'' 10]
        @ [ex_tx ''t4'' ''transfer'' ''2024-01-06'' ''a2'' 20,
           ex_tx ''t5'' ''normal'' ''2023-12-31'' ''a2'' 7]\<rparr>)"
    using computeMonthlyPnl_sums
      [where c = ex_clock and d = ex_db
         and t = "ex_tx ''t3'' ''transfer'' ''2024-01-06'' ''a1'' (- 20)"
         and pre = "[ex_tx ''t1'' ''normal'' ''2024-01-03'' ''a1'' (- 30),
                     ex_tx ''t2'' ''normal'' ''2024-01-05'' ''a1'' 10]"
         and post = "[ex_tx ''t4'' ''transfer'' ''2024-01-06'' ''a2'' 20,
                      ex_tx ''t5'' ''normal'' ''2023-12-31'' ''a2'' 7]"]
      ty
    by blast
  then have w: "computeMonthlyPnl ex_clock (ex_db\<lparr>transactions :=
        [ex_tx ''t1'' ''normal'' ''2024-01-03'' ''a1'' (- 30),
         ex_tx ''t2'' ''normal'' ''2024-01-05'' ''a1'' 10]
        @ [ex_tx ''t4'' ''transfer'' ''2024-01-06'' ''a2'' 20,
           ex_tx ''t5'' ''normal'' ''2023-12-31'' ''a2'' 7]\<rparr>)
       = computeMonthlyPnl ex_clock ex_db"
    unfolding q by (rule sym)
  from ty v w show ?thesis by blast
qed






















lemma js_div_nonzero: "b \<noteq> 0 \<Longrightarrow> js_div a b = Fin (a / b)"
  by (simp add: js_div_def)

lemma goalProgress_finite: "goalProgress g b m = Some p \<Longrightarrow> isFinite p"
  by (auto simp: goalProgress_def js_div_nonzero split: option.splits if_splits)

lemma goal_current_known:
  "goal_current g b m \<noteq> None \<longleftrightarrow>
     g_type g \<in> set [''cashInBank'', ''actualCash'', ''investments'', ''netWorth'',
                      ''monthlyExpenseCap'']"
  unfolding goal_current_def by (simp split: if_splits)

lemma goalProgress_zero_target:
  assumes "targetValue g = Some 0"
  shows "goalProgress g b m =
     (if g_type g \<in> set [''cashInBank'', ''actualCash'', ''investments'', ''netWorth'',
                          ''monthlyExpenseCap'']
      then Some (Fin 0) else None)"
proof (cases "goal_current g b m")
  case None
  then show ?thesis
    using goal_current_known [of g b m] assms by (simp add: goalProgress_def)
next
  case (Some cur)
  then show ?thesis
    using goal_current_known [of g b m] assms by (simp add: goalProgress_def)
qed

text \<open>
  Claim C7. \<open>winRate\<close> is \<open>wins / total * 100\<close> when there are trades and 0 when there are
  none, and it is always finite. When the target of a goal is zero, \<open>goalProgress\<close> returns
  0 for each of the five goal types (and \<open>null\<close>, no number, for any other type string);
  it never returns \<open>NaN\<close> or an infinity.
\<close>

theorem no_division_by_zero_escapes:
  "winRate (computeTradeStats c d) =
     (if 0 < total_trades (computeTradeStats c d)
      then Fin (of_nat (wins (computeTradeStats c d))
                / of_nat (total_trades (computeTradeStats c d)) * 100)
      else Fin 0)
   \<and> isFinite (winRate (computeTradeStats c d))
   \<and> (targetValue g = Some 0 \<longrightarrow>
        goalProgress g b m =
          (if g_type g \<in> set [''cashInBank'', ''actualCash'', ''investments'', ''netWorth'',
                               ''monthlyExpenseCap'']
           then Some (Fin 0) else None))
   \<and> (goalProgress g b m = Some p \<longrightarrow> isFinite p)"
proof -
  have w: "winRate (computeTradeStats c d) =
     (if 0 < total_trades (computeTradeStats c d)
      then Fin (of_nat (wins (computeTradeStats c d))
                / of_nat (total_trades (computeTradeStats c d)) * 100)
      else Fin 0)"
    by (simp add: computeTradeStats_def Let_def js_div_nonzero)
  then have f: "isFinite (winRate (computeTradeStats c d))"
    by simp
  from w f goalProgress_zero_target [of g b m] goalProgress_finite [of g b m p]
  show ?thesis by blast
qed

theorem no_division_by_zero_escapes_witness:
  "targetValue (ex_goal ''g7'' ''investments'' 0 None ''active'') = Some 0
   \<and> goalProgress (ex_goal ''g7'' ''investments'' 0 None ''active'')
        (computeBalances iso_date_time ex_state ex_clock ex_db)
        (computeMonthlyPnl ex_clock ex_db) = Some (Fin 0)
   \<and> isFinite (Fin 0)
   \<and> winRate (computeTradeStats ex_clock (ex_db\<lparr>trades := []\<rparr>)) = Fin 0"
proof -
  have t: "targetValue (ex_goal ''g7'' ''investments'' 0 None ''active'') = Some 0"
    by (simp add: ex_goal_def)
  have ty: "g_type (ex_goal ''g7'' ''investments'' 0 None ''active'') = ''investments''"
    by (simp add: ex_goal_def)
  have n: "total_trades (computeTradeStats ex_clock (ex_db\<lparr>trades := []\<rparr>)) = 0"
    by (simp add: computeTradeStats_def month_trades_def)
  from no_division_by_zero_escapes
    [where g = "ex_goal ''g7'' ''investments'' 0 None ''active''"
       and b = "computeBalances iso_date_time ex_state ex_clock ex_db"
       and m = "computeMonthlyPnl ex_clock ex_db" and p = "Fin 0"
       and c = ex_clock and d = "ex_db\<lparr>trades := []\<rparr>"] t ty n
  show ?thesis by simp
qed

section \<open>Properties of the alert pass\<close>

lemma isFinite_Fin: "isFinite p \<Longrightarrow> \<exists>v. p = Fin v"
  by (cases p) simp_all

lemma goalProgress_Fin: "goalProgress g b m = Some p \<Longrightarrow> \<exists>v. p = Fin v"
  using goalProgress_finite isFinite_Fin by blast

lemma alerts_step:
  "alerts_loop dt c b m (g # gs) acc =
     alerts_loop dt c b m gs (acc @ (if alert_due dt c b m g then alert_of b m g else []))"
proof (cases "goalProgress g b m")
  case None
  then show ?thesis by (simp add: alert_due_def alert_of_def)
next
  case (Some p)
  then obtain v where p: "p = Fin v" using goalProgress_Fin by blast
  show ?thesis using Some unfolding p
    by (simp add: alert_due_def alert_of_def not_less)
qed

lemma alerts_loop_eq:
  "alerts_loop dt c b m gs acc =
     acc @ concat (map (alert_of b m) (filter (alert_due dt c b m) gs))"
proof (induction gs arbitrary: acc)
  case Nil
  show ?case by simp
next
  case (Cons g gs)
  show ?case unfolding alerts_step Cons.IH by simp
qed

lemma alert_due_progress:
  "alert_due dt c b m g \<Longrightarrow> \<exists>p. goalProgress g b m = Some (Fin p) \<and> 80 \<le> p"
proof -
  assume a: "alert_due dt c b m g"
  then obtain q where q: "goalProgress g b m = Some q" and ge: "js_ge q 80"
    by (auto simp: alert_due_def split: option.splits)
  from q obtain v where "q = Fin v" using goalProgress_Fin by blast
  with q ge show ?thesis by simp
qed

lemma alert_of_due:
  "goalProgress g b m = Some (Fin p) \<Longrightarrow>
     alert_of b m g =
       [if g_type g = ''monthlyExpenseCap'' then Warning g (Fin (of_int \<lfloor>p + 1 / 2\<rfloor>))
        else Notice g (Fin (of_int \<lfloor>p + 1 / 2\<rfloor>))]"
  by (simp add: alert_of_def)

lemma concat_alerts_empty:
  "concat (map (alert_of b m) (filter (alert_due dt c b m) gs)) = []
     \<longleftrightarrow> filter (alert_due dt c b m) gs = []"
proof (induction gs)
  case Nil
  show ?case by simp
next
  case (Cons g gs)
  show ?case
  proof (cases "alert_due dt c b m g")
    case True
    then obtain p where "goalProgress g b m = Some (Fin p)"
      using alert_due_progress by blast
    then have "alert_of b m g \<noteq> []" by (simp add: alert_of_def)
    with True show ?thesis by simp
  next
    case False
    with Cons.IH show ?thesis by simp
  qed
qed

lemma goal_expired_iff:
  "\<not> goal_expired dt c g \<longleftrightarrow>
     (endDate g = None \<or> endDate g = Some [] \<or> dt (or_empty (endDate g)) = None
      \<or> (\<exists>ed. dt (or_empty (endDate g)) = Some ed \<and> now_ms c \<le> ed))"
proof (cases "endDate g")
  case None
  then show ?thesis by (simp add: goal_expired_def)
next
  case (Some s)
  then show ?thesis
    by (cases "dt s") (auto simp: goal_expired_def)
qed

lemma alert_due_iff:
  "alert_due dt c b m g \<longleftrightarrow>
     g_status g \<noteq> ''archived''
     \<and> (endDate g = None \<or> endDate g = Some [] \<or> dt (or_empty (endDate g)) = None
        \<or> (\<exists>ed. dt (or_empty (endDate g)) = Some ed \<and> now_ms c \<le> ed))
     \<and> (\<exists>p. goalProgress g b m = Some (Fin p) \<and> 80 \<le> p)"
proof -
  have "(case goalProgress g b m of None \<Rightarrow> False | Some pct \<Rightarrow> js_ge pct 80)
      \<longleftrightarrow> (\<exists>p. goalProgress g b m = Some (Fin p) \<and> 80 \<le> p)"
  proof (cases "goalProgress g b m")
    case None
    then show ?thesis by simp
  next
    case (Some q)
    then obtain v where "q = Fin v" using goalProgress_Fin by blast
    with Some show ?thesis by simp
  qed
  then show ?thesis
    unfolding alert_due_def goal_expired_iff by simp
qed

text \<open>
  Claim C8. The alerts shown are the first three, in the order of the goals store, of the
  alerts of the goals that are not archived, whose end date is \<open>null\<close> (or empty, or no
  date) or not before the time of the call, and whose percentage is at least 80; the
  panel is hidden exactly when no goal qualifies. Such a goal raises one alert: a warning
  when its type is \<open>monthlyExpenseCap\<close>, a notice for every other type, with the rounded
  percentage.
\<close>

theorem renderAlerts_first_three:
  "shown (renderAlerts dt c d b) =
     take 3 (concat (map (alert_of b (computeMonthlyPnl c d))
                      (filter (alert_due dt c b (computeMonthlyPnl c d)) (goals d))))
   \<and> hidden (renderAlerts dt c d b) =
       (filter (alert_due dt c b (computeMonthlyPnl c d)) (goals d) = [])
   \<and> length (shown (renderAlerts dt c d b)) \<le> 3
   \<and> (alert_due dt c b m g \<longleftrightarrow>
        g_status g \<noteq> ''archived''
        \<and> (endDate g = None \<or> endDate g = Some [] \<or> dt (or_empty (endDate g)) = None
           \<or> (\<exists>ed. dt (or_empty (endDate g)) = Some ed \<and> now_ms c \<le> ed))
        \<and> (\<exists>p. goalProgress g b m = Some (Fin p) \<and> 80 \<le> p))
   \<and> (goalProgress g b m = Some (Fin p) \<longrightarrow>
        alert_of b m g =
          [if g_type g = ''monthlyExpenseCap'' then Warning g (Fin (of_int \<lfloor>p + 1 / 2\<rfloor>))
           else Notice g (Fin (of_int \<lfloor>p + 1 / 2\<rfloor>))])"
proof -
  let ?due = "filter (alert_due dt c b (computeMonthlyPnl c d)) (goals d)"
  let ?al = "concat (map (alert_of b (computeMonthlyPnl c d)) ?due)"
  have loop: "alerts_loop dt c b (computeMonthlyPnl c d) (goals d) [] = ?al"
    by (simp add: alerts_loop_eq)
  have s: "shown (renderAlerts dt c d b) = take 3 ?al"
    unfolding renderAlerts_def Let_def loop by simp
  have h: "hidden (renderAlerts dt c d b) = (?due = [])"
    unfolding renderAlerts_def Let_def loop
    using concat_alerts_empty [of b "computeMonthlyPnl c d" dt c "goals d"] by simp
  have l: "length (shown (renderAlerts dt c d b)) \<le> 3"
    unfolding s by simp
  from s h l alert_due_iff [of dt c b m g] alert_of_due [of g b m p]
  show ?thesis by blast
qed


lemma investmentsCurrent_eq:
  "investmentsCurrent (computeBalances date_time st c d) =
     sum_list (map (\<lambda>p. or0 (currentValue p)) (positions d))"
  by (simp add: computeBalances_def Let_def foldl_plus_sum_list)

lemma netWorth_eq:
  "netWorth (computeBalances date_time st c d) =
     actualCash (computeBalances date_time st c d)
     + investmentsCurrent (computeBalances date_time st c d)
     - sum_list (map (\<lambda>x. or0 (d_amount x)) (openPayables (debts d)))"
  by (simp add: computeBalances_def Let_def foldl_plus_sum_list)

lemma ex_balances_values:
  "actualCash (computeBalances iso_date_time ex_state ex_clock ex_db) = 137"
  "cashInBank (computeBalances iso_date_time ex_state ex_clock ex_db) = 60"
  "investmentsCurrent (computeBalances iso_date_time ex_state ex_clock ex_db) = 0"
  "netWorth (computeBalances iso_date_time ex_state ex_clock ex_db) = 137"
  by (simp_all add: netWorth_eq actualCash_eq cashInBank_eq investmentsCurrent_eq
      in_bank_account_def openPayables_def example_eval)

lemma ex_monthly_value:
  "computeMonthlyPnl ex_clock ex_db
     = \<lparr> income = 10, expense = 30, net = - 20, pnl_start = ''2024-01-01'',
         pnl_end = ''2024-01-31'' \<rparr>"
  by (simp add: computeMonthlyPnl_def month_eval example_eval)

lemma ex_goal_dates:
  "iso_date_time ''2023-12-31'' = Some 1703980800000"
  "iso_date_time ''2024-06-30'' = Some 1719705600000"
  by (simp_all add: date_eval)

lemma ex_alerts_loop_values:
  assumes "actualCash b = 137" "cashInBank b = 60" "investmentsCurrent b = 0"
    "netWorth b = 137" "expense m = 30"
  shows "alerts_loop iso_date_time ex_clock b m ex_goals [] =
     [Warning (ex_goal ''g1'' ''monthlyExpenseCap'' 35 None ''active'') (Fin 86),
      Notice (ex_goal ''g4'' ''actualCash'' 100 (Some ''2024-06-30'') ''active'') (Fin 137),
      Notice (ex_goal ''g6'' ''netWorth'' 100 None ''active'') (Fin 137),
      Notice (ex_goal ''g8'' ''cashInBank'' 50 None ''active'') (Fin 120)]"
proof -
  have f: "\<lfloor>(600::rat) / 7 + 1 / 2\<rfloor> = 86"
    by (simp add: floor_eq_iff)
  have g: "\<lfloor>(137::rat) + 1 / 2\<rfloor> = 137" "\<lfloor>(120::rat) + 1 / 2\<rfloor> = 120"
    by (simp_all add: floor_eq_iff)
  show ?thesis
    using assms f g
    by (simp add: ex_goals_def ex_goal_def goalProgress_def goal_current_def
        goal_expired_def js_div_def ex_goal_dates ex_clock_def)
qed

lemma ex_alerts_loop:
  "alerts_loop iso_date_time ex_clock (computeBalances iso_date_time ex_state ex_clock ex_db)
      (computeMonthlyPnl ex_clock ex_db) (goals ex_db) [] =
     [Warning (ex_goal ''g1'' ''monthlyExpenseCap'' 35 None ''active'') (Fin 86),
      Notice (ex_goal ''g4'' ''actualCash'' 100 (Some ''2024-06-30'') ''active'') (Fin 137),
      Notice (ex_goal ''g6'' ''netWorth'' 100 None ''active'') (Fin 137),
      Notice (ex_goal ''g8'' ''cashInBank'' 50 None ''active'') (Fin 120)]"
proof -
  have gs: "goals ex_db = ex_goals" by (simp add: ex_db_def)
  have e: "expense (computeMonthlyPnl ex_clock ex_db) = 30"
    unfolding ex_monthly_value by simp
  show ?thesis
    unfolding gs using ex_balances_values e by (rule ex_alerts_loop_values)
qed

theorem renderAlerts_first_three_witness:
  "goalProgress (ex_goal ''g1'' ''monthlyExpenseCap'' 35 None ''active'')
       (computeBalances iso_date_time ex_state ex_clock ex_db)
       (computeMonthlyPnl ex_clock ex_db) = Some (Fin (600 / 7))
   \<and> alert_of (computeBalances iso_date_time ex_state ex_clock ex_db)
       (computeMonthlyPnl ex_clock ex_db)
       (ex_goal ''g1'' ''monthlyExpenseCap'' 35 None ''active'')
      = [Warning (ex_goal ''g1'' ''monthlyExpenseCap'' 35 None ''active'') (Fin 86)]
   \<and> shown (renderAlerts iso_date_time ex_clock ex_db
              (computeBalances iso_date_time ex_state ex_clock ex_db)) =
     [Warning (ex_goal ''g1'' ''monthlyExpenseCap'' 35 None ''active'') (Fin 86),
      Notice (ex_goal ''g4'' ''actualCash'' 100 (Some ''2024-06-30'') ''active'') (Fin 137),
      Notice (ex_goal ''g6'' ''netWorth'' 100 None ''active'') (Fin 137)]"
proof -
  have p: "goalProgress (ex_goal ''g1'' ''monthlyExpenseCap'' 35 None ''active'')
       (computeBalances iso_date_time ex_state ex_clock ex_db)
       (computeMonthlyPnl ex_clock ex_db) = Some (Fin (600 / 7))"
    unfolding ex_monthly_value
    by (simp add: ex_goal_def goalProgress_def goal_current_def js_div_def)
  have f: "\<lfloor>(600::rat) / 7 + 1 / 2\<rfloor> = 86"
    by (simp add: floor_eq_iff)
  have ty: "g_type (ex_goal ''g1'' ''monthlyExpenseCap'' 35 None ''active'') = ''monthlyExpenseCap''"
    by (simp add: ex_goal_def)
  have s: "shown (renderAlerts iso_date_time ex_clock ex_db
              (computeBalances iso_date_time ex_state ex_clock ex_db)) =
     [Warning (ex_goal ''g1'' ''monthlyExpenseCap'' 35 None ''active'') (Fin 86),
      Notice (ex_goal ''g4'' ''actualCash'' 100 (Some ''2024-06-30'') ''active'') (Fin 137),
      Notice (ex_goal ''g6'' ''netWorth'' 100 None ''active'') (Fin 137)]"
    unfolding renderAlerts_def Let_def ex_alerts_loop by simp
  from renderAlerts_first_three
    [where dt = iso_date_time and c = ex_clock and d = ex_db
       and b = "computeBalances iso_date_time ex_state ex_clock ex_db"
       and m = "computeMonthlyPnl ex_clock ex_db"
       and g = "ex_goal ''g1'' ''monthlyExpenseCap'' 35 None ''active''"
       and p = "600 / 7"] p f ty s
  show ?thesis by simp
qed

section \<open>Properties of export and import\<close>

lemma idbPut_append:
  "\<forall>a\<in>set acc. key a < key x \<Longrightarrow> idbPut key x acc = acc @ [x]"
  by (induction acc) auto

lemma foldl_idbPut_sorted:
  "sorted_wrt (<) (map key (acc @ xs)) \<Longrightarrow>
     foldl (\<lambda>store item. idbPut key item store) acc xs = acc @ xs"
proof (induction xs arbitrary: acc)
  case Nil
  show ?case by simp
next
  case (Cons x xs)
  from Cons.prems have lt: "\<forall>a\<in>set acc. key a < key x"
    by (auto simp: sorted_wrt_append)
  from Cons.prems have "sorted_wrt (<) (map key ((acc @ [x]) @ xs))" by simp
  then have "foldl (\<lambda>store item. idbPut key item store) (acc @ [x]) xs = (acc @ [x]) @ xs"
    by (rule Cons.IH)
  then show ?case using lt by (simp add: idbPut_append)
qed

lemma import_store_getAll:
  "store_ok key xs \<Longrightarrow> import_store key (Some xs) ys = xs"
  using foldl_idbPut_sorted [of key "[]" xs]
  by (simp add: import_store_def idbClear_def store_ok_def)

lemma set_idbPut: "key ` set (idbPut key v xs) = insert (key v) (key ` set xs)"
  by (induction xs) auto

lemma store_ok_idbPut: "store_ok key xs \<Longrightarrow> store_ok key (idbPut key v xs)"
proof (induction xs)
  case Nil
  show ?case by (simp add: store_ok_def)
next
  case (Cons x xs)
  then have ok: "store_ok key (idbPut key v xs)" by (simp add: store_ok_def)
  from Cons.prems have lt: "\<forall>k\<in>key ` set xs. key x < k"
    by (auto simp: store_ok_def)
  show ?case
  proof (cases "key v < key x")
    case True
    with Cons.prems show ?thesis by (auto simp: store_ok_def)
  next
    case False
    show ?thesis
    proof (cases "key v = key x")
      case True
      with Cons.prems show ?thesis by (auto simp: store_ok_def)
    next
      case neq: False
      with False have "key x < key v" by simp
      with lt have "\<forall>k\<in>key ` set (idbPut key v xs). key x < k"
        unfolding set_idbPut by simp
      with ok False neq show ?thesis by (simp add: store_ok_def)
    qed
  qed
qed

lemma store_ok_idbDelete: "store_ok key xs \<Longrightarrow> store_ok key (idbDelete key k xs)"
  unfolding store_ok_def idbDelete_def
  by (induction xs) auto

lemma store_ok_idbClear: "store_ok key (idbClear xs)"
  by (simp add: store_ok_def idbClear_def)

lemma importAll_exportAll:
  assumes "db_ok d"
  shows "fst (importAll (exportAll c d) d0 st) = d"
proof -
  from assms have ok: "store_ok a_id (accounts d)" "store_ok t_id (transactions d)"
    "store_ok c_id (categories d)" "store_ok i_id (instruments d)"
    "store_ok p_id (positions d)" "store_ok d_id (debts d)"
    "store_ok tr_id (trades d)" "store_ok g_id (goals d)"
    "store_ok s_id (snapshots d)" "store_ok m_key (meta_store d)"
    by (simp_all add: db_ok_def)
  show ?thesis
    by (simp add: importAll_def exportAll_def Let_def ok [THEN import_store_getAll])
qed

lemma loadCurrency_fields:
  "horizonDays (loadCurrency d st) = horizonDays st"
  "includeConfidenceMin (loadCurrency d st) = includeConfidenceMin st"
  by (simp_all add: loadCurrency_def split: option.splits)

lemma computeBalances_state_fields:
  assumes "horizonDays st' = horizonDays st"
    and "includeConfidenceMin st' = includeConfidenceMin st"
  shows "computeBalances date_time st' c d = computeBalances date_time st c d"
proof -
  have h: "horizon st' c = horizon st c" using assms(1) by (simp add: horizon_def)
  have dw: "\<And>ds. dueWithin date_time st' c ds = dueWithin date_time st c ds"
    by (simp add: dueWithin_def h)
  have ei: "\<And>ds. expectedIncluded date_time st' c ds = expectedIncluded date_time st c ds"
    by (simp add: expectedIncluded_def dw assms(2))
  show ?thesis
    unfolding computeBalances_def dw ei ..
qed

text \<open>
  Claim C9. For every store state (each object store in ascending order of its distinct
  keys, which \<open>put\<close>, \<open>delete\<close> and \<open>clear\<close> maintain), importing the dump that
  \<open>exportAll\<close> returns, into any store, gives back the exported store, and
  \<open>computeBalances\<close> on the result returns what it returned before the export, read at the
  same clock.
\<close>

theorem export_import_round_trip:
  "db_ok d \<longrightarrow>
     fst (importAll (exportAll c d) d0 st) = d
     \<and> computeBalances date_time (snd (importAll (exportAll c d) d0 st)) c'
          (fst (importAll (exportAll c d) d0 st))
        = computeBalances date_time st c' d"
proof
  assume ok: "db_ok d"
  have f: "fst (importAll (exportAll c d) d0 st) = d"
    using ok by (rule importAll_exportAll)
  have s: "snd (importAll (exportAll c d) d0 st)
      = loadCurrency (fst (importAll (exportAll c d) d0 st)) st"
    by (simp add: importAll_def Let_def)
  have "computeBalances date_time (snd (importAll (exportAll c d) d0 st)) c' d
        = computeBalances date_time st c' d"
    unfolding s by (rule computeBalances_state_fields) (rule loadCurrency_fields)+
  with f show "fst (importAll (exportAll c d) d0 st) = d
     \<and> computeBalances date_time (snd (importAll (exportAll c d) d0 st)) c'
          (fst (importAll (exportAll c d) d0 st))
        = computeBalances date_time st c' d"
    by simp
qed

lemma ex_db_ok: "db_ok ex_db"
  by (simp add: db_ok_def store_ok_def example_eval)

theorem export_import_round_trip_witness:
  "db_ok ex_db
   \<and> fst (importAll (exportAll ex_clock ex_db) (ex_db\<lparr>debts := []\<rparr>) ex_state) = ex_db
   \<and> computeBalances iso_date_time
        (snd (importAll (exportAll ex_clock ex_db) (ex_db\<lparr>debts := []\<rparr>) ex_state)) ex_clock
        (fst (importAll (exportAll ex_clock ex_db) (ex_db\<lparr>debts := []\<rparr>) ex_state))
      = computeBalances iso_date_time ex_state ex_clock ex_db"
  using export_import_round_trip
    [where d = ex_db and c = ex_clock and d0 = "ex_db\<lparr>debts := []\<rparr>" and st = ex_state
       and date_time = iso_date_time and c' = ex_clock]
    ex_db_ok
  by blast

end
